theory Spec2Isabelle
  imports Complex_Main
begin

section \<open>XP system and level tracking (utils/xp.js)\<close>

text \<open>
  JavaScript numbers that hold XP, levels and step counts are integers far below
  \<open>2^53\<close>; they are modelled as \<open>int\<close>. A column or argument that may be
  \<open>null\<close>/\<open>undefined\<close> is an \<open>option\<close>, and \<open>x ?? d\<close> is a case
  distinction on it.
\<close>

definition DAILY_XP_CAP :: int where
  "DAILY_XP_CAP = 150"

text \<open>
  \<open>Math.round(prevIncrement * 1.2)\<close>. For an integer \<open>n\<close> the exact product
  \<open>6n/5\<close> has fractional part \<open>0, .2, .4, .6\<close> or \<open>.8\<close>, so it is never closer
  than \<open>0.1\<close> to a rounding boundary, while the double-precision error of
  \<open>n * 1.2\<close> stays below \<open>10^-4\<close> for every increment of the 100-level table.
  Hence the result is the nearest integer to \<open>6n/5\<close>, which is
  \<open>\<lfloor>6n/5 + 1/2\<rfloor> = (12n + 5) div 10\<close>.
\<close>

definition round_times_1_2 :: "int \<Rightarrow> int" where
  "round_times_1_2 n = (12 * n + 5) div 10"

text \<open>
  The \<open>for (let i = 3; i < maxLevel; i++)\<close> loop of \<open>buildLevelThresholds\<close>.
  \<open>thresholds[i - 1]\<close> is read with \<open>i = thresholds.length\<close>, so it is the last
  element pushed; the read is always in range.
\<close>

function buildLevelThresholds_loop :: "nat \<Rightarrow> nat \<Rightarrow> int \<Rightarrow> int list \<Rightarrow> int list" where
  "buildLevelThresholds_loop maxLevel i prevIncrement thresholds =
     (if i < maxLevel then
        (let prevIncrement' = round_times_1_2 prevIncrement
         in buildLevelThresholds_loop maxLevel (Suc i) prevIncrement'
              (thresholds @ [thresholds ! (i - 1) + prevIncrement']))
      else thresholds)"
  by pat_completeness auto
termination
  by (relation "measure (\<lambda>(maxLevel, i, p, ths). maxLevel - i)") auto

declare buildLevelThresholds_loop.simps [simp del]

definition buildLevelThresholds :: "nat \<Rightarrow> int list" where
  "buildLevelThresholds maxLevel = buildLevelThresholds_loop maxLevel 3 700 [0, 500, 1200]"

definition LEVEL_THRESHOLDS :: "int list" where
  "LEVEL_THRESHOLDS = buildLevelThresholds 100"

text \<open>
  \<open>getLevelForXp\<close>: the loop starts at index 1 with \<open>level = 1\<close> and stops at the
  first threshold above \<open>xp\<close> (\<open>break\<close>).
\<close>

function getLevelForXp_loop :: "int list \<Rightarrow> int \<Rightarrow> nat \<Rightarrow> int \<Rightarrow> int" where
  "getLevelForXp_loop ths xp i level =
     (if i < length ths then
        (if xp \<ge> ths ! i then getLevelForXp_loop ths xp (Suc i) (int i + 1)
         else level)
      else level)"
  by pat_completeness auto
termination
  by (relation "measure (\<lambda>(ths, xp, i, level). length ths - i)") auto

declare getLevelForXp_loop.simps [simp del]

definition getLevelForXp :: "int \<Rightarrow> int" where
  "getLevelForXp xp = getLevelForXp_loop LEVEL_THRESHOLDS xp 1 1"

text \<open>\<open>getXpForNextLevel\<close>: \<open>null\<close> at the maximum level.\<close>

definition getXpForNextLevel :: "nat \<Rightarrow> int option" where
  "getXpForNextLevel level =
     (if level \<ge> length LEVEL_THRESHOLDS then None else Some (LEVEL_THRESHOLDS ! level))"

text \<open>
  \<open>capDailyXp(currentDayXp, proposedDelta)\<close>; \<open>currentDayXp ?? 0\<close> reads a missing
  day total as 0.
\<close>

definition capDailyXp :: "int option \<Rightarrow> int \<Rightarrow> int" where
  "capDailyXp currentDayXp proposedDelta =
     (if proposedDelta \<le> 0 then 0
      else (let remaining = max 0 (DAILY_XP_CAP - (case currentDayXp of None \<Rightarrow> 0 | Some c \<Rightarrow> c))
            in min proposedDelta remaining))"


section \<open>The store (db/index.js)\<close>

text \<open>
  A calendar date is the \<open>YYYY-MM-DD\<close> string of the user's local day. The code
  compares such strings with \<open><=\<close> and \<open>>=\<close> (lexicographic order, which for
  this zero-padded format is chronological order) and moves along the calendar with
  \<open>addDays\<close>. A date is modelled as its day number, so that the comparison is the
  order of \<open>int\<close> and \<open>addDays\<close> is addition. A timestamp is the number of
  milliseconds since the epoch (\<open>Date.now()\<close>; an ISO string written by
  \<open>toISOString\<close> and read back by \<open>new Date(s).getTime()\<close> is the same number).
\<close>

type_synonym user_id = string
type_synonym date = int
type_synonym timestamp = int

text \<open>
  A row of \<open>daily_logs\<close>. Columns declared without a default are nullable
  (\<open>option\<close>); columns declared \<open>INTEGER DEFAULT 0\<close> are only ever written with
  numbers and are \<open>int\<close>. \<open>sleep_hours\<close> holds a value with one decimal
  (\<open>Math.round(h * 10) / 10\<close>); it is kept in tenths of an hour. The columns
  \<open>id\<close>, \<open>mood\<close> and \<open>notes\<close> are not touched by the code modelled here.
\<close>

record daily_log =
  steps :: "int option"
  hydration_glasses :: "int option"
  sleep_hours :: "int option"
  movement_done :: int
  vegetables_count :: "int option"
  xp_earned :: int
  created_at :: timestamp
  updated_at :: timestamp
  steps_manual :: "int option"
  steps_google_fit :: "int option"
  steps_goal_xp_awarded :: int
  steps_last_bonus_at :: "timestamp option"
  movement_xp_awarded :: int
  hydration_xp_glasses :: int
  hydration_goal_xp_awarded :: int
  sleep_start :: "string option"
  sleep_end :: "string option"
  sleep_xp_start_awarded :: int
  sleep_xp_end_awarded :: int
  sleep_goal_xp_awarded :: int
  food_vegetables :: int
  food_no_junk :: int
  food_breakfast :: int
  food_veg_xp_awarded :: int
  food_nojunk_xp_awarded :: int
  food_breakfast_xp_awarded :: int

text \<open>The columns of \<open>habits_config\<close> that the engine reads (both \<open>NOT NULL\<close>).\<close>

record habits_config_row =
  cfg_daily_steps :: int
  cfg_hydration_glasses :: int

text \<open>
  The columns of \<open>users\<close> that the engine reads or writes. The streak counters are
  \<open>INTEGER DEFAULT 0\<close> columns that the code only increments, decrements when
  positive, or resets to 0; they are natural numbers.
\<close>

record user_row =
  xp_total :: int
  level :: int
  current_streak :: nat
  longest_streak :: nat
  streak_shields :: nat
  streak_last_evaluated_date :: "date option"
  bmi_category :: "string option"
  mascot_id :: "int option"
  mascot_name :: "string option"

record db =
  users :: "user_id \<rightharpoonup> user_row"
  daily_logs :: "(user_id \<times> date) \<rightharpoonup> daily_log"
  habits_config :: "user_id \<rightharpoonup> habits_config_row"

text \<open>
  \<open>UNIQUE(user_id, log_date)\<close> makes \<open>daily_logs\<close> a map from (user, date) to a
  row; \<open>users\<close> and \<open>habits_config\<close> are keyed by the user id.
\<close>

datatype error = BadRequest | InternalError

section \<open>Streak evaluation (utils/streak.js)\<close>

definition addDays :: "date \<Rightarrow> int \<Rightarrow> date" where
  "addDays dateStr days = dateStr + days"

definition countCompletedCategories :: "db \<Rightarrow> user_id \<Rightarrow> date \<Rightarrow> nat" where
  "countCompletedCategories d userId dateStr =
     (case daily_logs d (userId, dateStr) of
        None \<Rightarrow> 0
      | Some logRow \<Rightarrow>
          (let goals = habits_config d userId;
               c1 = (if (case steps logRow of None \<Rightarrow> False
                         | Some s \<Rightarrow> s \<ge> (case goals of None \<Rightarrow> 10000 | Some g \<Rightarrow> cfg_daily_steps g))
                     then 1 else 0);
               c2 = (if (case hydration_glasses logRow of None \<Rightarrow> False
                         | Some h \<Rightarrow> h \<ge> (case goals of None \<Rightarrow> 8 | Some g \<Rightarrow> cfg_hydration_glasses g))
                     then c1 + 1 else c1);
               c3 = (if (case sleep_hours logRow of None \<Rightarrow> False | Some t \<Rightarrow> t \<ge> 70)
                     then c2 + 1 else c2);
               c4 = (if movement_done logRow = 1 then c3 + 1 else c3);
               c5 = (if food_vegetables logRow = 1 \<or> food_no_junk logRow = 1 \<or> food_breakfast logRow = 1
                     then c4 + 1 else c4)
           in c5))"

definition STREAK_THRESHOLD :: nat where "STREAK_THRESHOLD = 3"
definition SHIELD_STREAK_INTERVAL :: nat where "SHIELD_STREAK_INTERVAL = 7"
definition MAX_SHIELDS :: nat where "MAX_SHIELDS = 1"

text \<open>
  The body of the \<open>while (evalDate <= yesterday)\<close> loop, on the three local
  variables \<open>(currentStreak, longestStreak, shields)\<close>.
\<close>

definition streak_day :: "nat \<Rightarrow> nat \<times> nat \<times> nat \<Rightarrow> nat \<times> nat \<times> nat" where
  "streak_day completed st =
     (case st of (currentStreak, longestStreak, shields) \<Rightarrow>
        (let (currentStreak', shields') =
               (if completed \<ge> STREAK_THRESHOLD then
                  (let c = currentStreak + 1
                   in if c > 0 \<and> c mod SHIELD_STREAK_INTERVAL = 0 \<and> shields < MAX_SHIELDS
                      then (c, shields + 1) else (c, shields))
                else if shields > 0 then (currentStreak, shields - 1)
                else (0, shields))
         in (currentStreak', max longestStreak currentStreak', shields')))"

function streak_loop :: "db \<Rightarrow> user_id \<Rightarrow> date \<Rightarrow> date \<Rightarrow> nat \<times> nat \<times> nat \<Rightarrow> nat \<times> nat \<times> nat" where
  "streak_loop d userId yesterday evalDate st =
     (if evalDate \<le> yesterday then
        streak_loop d userId yesterday (addDays evalDate 1)
          (streak_day (countCompletedCategories d userId evalDate) st)
      else st)"
  by pat_completeness auto
termination
  by (relation "measure (\<lambda>(d, userId, yesterday, evalDate, st). nat (yesterday + 1 - evalDate))")
    (auto simp: addDays_def)

declare streak_loop.simps [simp del]

text \<open>
  \<open>evaluateStreakIfNeeded\<close>, with \<open>today = getTodayForTimezone(timezone)\<close> as an
  argument. Reading a field of a missing user row throws.
\<close>

definition evaluateStreakIfNeeded :: "db \<Rightarrow> user_id \<Rightarrow> date \<Rightarrow> error + db" where
  "evaluateStreakIfNeeded d userId today =
     (case users d userId of
        None \<Rightarrow> Inl InternalError
      | Some user \<Rightarrow>
          (case streak_last_evaluated_date user of
             None \<Rightarrow>
               Inr (d\<lparr>users := (users d)(userId \<mapsto> user\<lparr>streak_last_evaluated_date := Some today\<rparr>)\<rparr>)
           | Some lastEval \<Rightarrow>
               if lastEval \<ge> today then Inr d
               else
                 (let yesterday = addDays today (- 1);
                      (currentStreak, longestStreak, shields) =
                         streak_loop d userId yesterday (addDays lastEval 1)
                           (current_streak user, longest_streak user, streak_shields user)
                  in Inr (d\<lparr>users := (users d)(userId \<mapsto>
                            user\<lparr>current_streak := currentStreak,
                                 longest_streak := longestStreak,
                                 streak_shields := shields,
                                 streak_last_evaluated_date := Some today\<rparr>)\<rparr>))))"

section \<open>Mascot evolution (utils/mascot.js)\<close>

record mascot =
  m_id :: int
  m_name :: string
  m_stage :: int

definition MASCOT_EVOLUTION :: "string \<rightharpoonup> mascot list" where
  "MASCOT_EVOLUTION = map_of
     [(''underweight'',
         [\<lparr>m_id = 1, m_name = ''Baby Flamingo'', m_stage = 1\<rparr>,
          \<lparr>m_id = 11, m_name = ''Flamingo'', m_stage = 2\<rparr>,
          \<lparr>m_id = 12, m_name = ''Dancing Flamingo'', m_stage = 3\<rparr>]),
      (''normal'',
         [\<lparr>m_id = 2, m_name = ''Energetic Fox'', m_stage = 1\<rparr>,
          \<lparr>m_id = 21, m_name = ''Swift Fox'', m_stage = 2\<rparr>,
          \<lparr>m_id = 22, m_name = ''Champion Fox'', m_stage = 3\<rparr>]),
      (''overweight'',
         [\<lparr>m_id = 3, m_name = ''Chunky Bear'', m_stage = 1\<rparr>,
          \<lparr>m_id = 31, m_name = ''Strong Bear'', m_stage = 2\<rparr>,
          \<lparr>m_id = 32, m_name = ''Mighty Bear'', m_stage = 3\<rparr>]),
      (''obese_1'',
         [\<lparr>m_id = 4, m_name = ''Sleepy Panda'', m_stage = 1\<rparr>,
          \<lparr>m_id = 41, m_name = ''Active Panda'', m_stage = 2\<rparr>,
          \<lparr>m_id = 42, m_name = ''Warrior Panda'', m_stage = 3\<rparr>]),
      (''obese_2'',
         [\<lparr>m_id = 5, m_name = ''Cozy Sloth'', m_stage = 1\<rparr>,
          \<lparr>m_id = 51, m_name = ''Speedy Sloth'', m_stage = 2\<rparr>,
          \<lparr>m_id = 52, m_name = ''Turbo Sloth'', m_stage = 3\<rparr>])]"

definition EVOLUTION_LEVEL_5 :: int where "EVOLUTION_LEVEL_5 = 5"
definition EVOLUTION_LEVEL_10 :: int where "EVOLUTION_LEVEL_10 = 10"

definition getMascotStageForLevel :: "int \<Rightarrow> nat" where
  "getMascotStageForLevel lvl =
     (if lvl \<ge> EVOLUTION_LEVEL_10 then 2
      else if lvl \<ge> EVOLUTION_LEVEL_5 then 1
      else 0)"

text \<open>
  \<open>stages[stageIndex]\<close>: an index beyond the array reads \<open>undefined\<close>; every
  entry of the table has three stages, so the read is in range.
\<close>

definition getMascotForLevel :: "string \<Rightarrow> int \<Rightarrow> mascot option" where
  "getMascotForLevel bmiCategory lvl =
     (case MASCOT_EVOLUTION bmiCategory of
        None \<Rightarrow> None
      | Some stages \<Rightarrow>
          (let stageIndex = getMascotStageForLevel lvl
           in if stageIndex < length stages then Some (stages ! stageIndex) else None))"

subsection \<open>The schema (db/index.js)\<close>

text \<open>
  The tables and columns that db/index.js creates: each \<open>CREATE TABLE IF NOT EXISTS\<close> of
  the \<open>db.exec\<close> call with its columns in order, followed by the columns that the
  \<open>ALTER TABLE ... ADD COLUMN\<close> migrations add to \<open>users\<close> and \<open>daily_logs\<close>. No other
  source file creates or alters a table.
\<close>

definition schema :: "(string \<times> string list) list" where
  "schema =
     [(''users'',
         [''id'', ''email'', ''password_hash'', ''name'', ''age'', ''gender'', ''height_cm'',
          ''weight_kg'', ''bmi'', ''bmi_category'', ''mascot_id'', ''mascot_name'', ''xp_total'',
          ''level'', ''current_streak'', ''longest_streak'', ''streak_shields'', ''timezone'',
          ''created_at'', ''last_active_at'', ''email_verified'', ''onboarding_step'',
          ''team_reminder_at'', ''streak_last_evaluated_date'']),
      (''email_verifications'',
         [''id'', ''user_id'', ''token'', ''expires_at'', ''used'', ''created_at'']),
      (''password_resets'',
         [''id'', ''user_id'', ''token'', ''expires_at'', ''used'', ''created_at'']),
      (''sessions'',
         [''id'', ''user_id'', ''token'', ''expires_at'', ''last_active_at'', ''created_at'']),
      (''habits_config'',
         [''id'', ''user_id'', ''daily_steps'', ''hydration_glasses'', ''sleep_hours_min'',
          ''sleep_hours_max'', ''movement_preference'', ''vegetables_per_day'', ''created_at'',
          ''updated_at'']),
      (''teams'',
         [''id'', ''name'', ''invite_code'', ''owner_id'', ''created_at'']),
      (''team_members'',
         [''id'', ''team_id'', ''user_id'', ''role'', ''joined_at'']),
      (''mascots'',
         [''id'', ''name'', ''description'', ''bmi_category'', ''created_at'']),
      (''daily_logs'',
         [''id'', ''user_id'', ''log_date'', ''steps'', ''hydration_glasses'', ''sleep_hours'',
          ''movement_done'', ''vegetables_count'', ''mood'', ''notes'', ''xp_earned'',
          ''created_at'', ''updated_at'', ''steps_manual'', ''steps_google_fit'',
          ''steps_goal_xp_awarded'', ''steps_last_bonus_at'', ''movement_xp_awarded'',
          ''hydration_xp_glasses'', ''hydration_goal_xp_awarded'', ''sleep_start'', ''sleep_end'',
          ''sleep_xp_start_awarded'', ''sleep_xp_end_awarded'', ''sleep_goal_xp_awarded'',
          ''food_vegetables'', ''food_no_junk'', ''food_breakfast'', ''food_veg_xp_awarded'',
          ''food_nojunk_xp_awarded'', ''food_breakfast_xp_awarded'']),
      (''team_challenges'',
         [''id'', ''team_id'', ''title'', ''description'', ''challenge_type'', ''target_value'',
          ''start_date'', ''end_date'', ''created_by'', ''created_at'']),
      (''challenge_entries'',
         [''id'', ''challenge_id'', ''user_id'', ''value'', ''logged_at'', ''created_at'']),
      (''notifications_config'',
         [''id'', ''user_id'', ''email_enabled'', ''push_enabled'', ''daily_reminder_enabled'',
          ''reminder_time'', ''team_updates_enabled'', ''challenge_updates_enabled'',
          ''created_at'', ''updated_at''])]"

datatype sqlite_error = SqliteError

text \<open>
  \<open>db.prepare(sql)\<close> of better-sqlite3 compiles the statement against the schema at
  once and throws a \<open>SqliteError\<close> when the statement names a table that does not
  exist (\<open>no such table\<close>) or a column that its table does not have
  (\<open>no such column\<close>, \<open>table ... has no column named ...\<close>). A statement is given
  by its table and the columns it names.
\<close>

definition prepare :: "string \<Rightarrow> string list \<Rightarrow> sqlite_error + unit" where
  "prepare tbl cols =
     (case map_of schema tbl of
        None \<Rightarrow> Inl SqliteError
      | Some tableColumns \<Rightarrow>
          if list_all (\<lambda>c. c \<in> set tableColumns) cols then Inr () else Inl SqliteError)"

subsection \<open>Applying an evolution\<close>

record evolution =
  previousMascot :: "int option \<times> string option"
  newMascot :: mascot
  ev_badgeType :: string
  ev_badgeName :: string
  evolutionLevel :: int

text \<open>
  \<open>checkAndApplyEvolution(userId, previousLevel, newLevel)\<close>. The result is what the
  call does, \<open>Inl\<close> an exception thrown or \<open>Inr\<close> the returned object (\<open>None\<close> for
  \<open>null\<close>), together with the store at that moment. The statements are prepared in the
  order of the source:

    \<^item> the \<open>SELECT bmi_category, mascot_id, mascot_name, mascot_stage FROM users WHERE id = ?\<close>;
    \<^item> the \<open>UPDATE users SET mascot_id = ?, mascot_name = ?, mascot_stage = ? WHERE id = ?\<close>,
      which writes the columns that the \<open>users\<close> row has;
    \<^item> the \<open>INSERT OR IGNORE INTO badges (id, user_id, badge_type, badge_name, awarded_at)\<close>,
      once for the level-5 badge when both thresholds are crossed, and once for the badge
      of the highest threshold crossed. The insert touches no row of \<open>users\<close>,
      \<open>daily_logs\<close> or \<open>habits_config\<close>.
\<close>

definition checkAndApplyEvolution ::
  "db \<Rightarrow> user_id \<Rightarrow> int \<Rightarrow> int \<Rightarrow> (sqlite_error + evolution option) \<times> db" where
  "checkAndApplyEvolution d userId previousLevel newLevel =
     (if newLevel \<le> previousLevel then (Inr None, d)
      else
        (let crossedLevel5 = (previousLevel < EVOLUTION_LEVEL_5 \<and> newLevel \<ge> EVOLUTION_LEVEL_5);
             crossedLevel10 = (previousLevel < EVOLUTION_LEVEL_10 \<and> newLevel \<ge> EVOLUTION_LEVEL_10)
         in if \<not> crossedLevel5 \<and> \<not> crossedLevel10 then (Inr None, d)
            else
              (case prepare ''users''
                      [''bmi_category'', ''mascot_id'', ''mascot_name'', ''mascot_stage'', ''id''] of
                 Inl e \<Rightarrow> (Inl e, d)
               | Inr _ \<Rightarrow>
              (case users d userId of
                 None \<Rightarrow> (Inr None, d)
               | Some user \<Rightarrow>
                   (case bmi_category user of
                      None \<Rightarrow> (Inr None, d)
                    | Some cat \<Rightarrow>
                        if cat = [] then (Inr None, d)
                        else
                          (case getMascotForLevel cat newLevel of
                             None \<Rightarrow> (Inr None, d)
                           | Some nm \<Rightarrow>
                               if Some (m_id nm) = mascot_id user then (Inr None, d)
                               else
                                 (case prepare ''users''
                                         [''mascot_id'', ''mascot_name'', ''mascot_stage'', ''id''] of
                                    Inl e \<Rightarrow> (Inl e, d)
                                  | Inr _ \<Rightarrow>
                                 (let d1 = d\<lparr>users := (users d)(userId \<mapsto>
                                             user\<lparr>mascot_id := Some (m_id nm),
                                                  mascot_name := Some (m_name nm)\<rparr>)\<rparr>;
                                      (badgeType, badgeName) =
                                         (if crossedLevel10 then (''champion'', ''Champion'')
                                          else (''evolution_5'', ''Mascot Evolution''));
                                      insertBadge = prepare ''badges''
                                         [''id'', ''user_id'', ''badge_type'', ''badge_name'',
                                          ''awarded_at'']
                                  in case (if crossedLevel5 \<and> crossedLevel10 then insertBadge
                                           else Inr ()) of
                                       Inl e \<Rightarrow> (Inl e, d1)
                                     | Inr _ \<Rightarrow>
                                       (case insertBadge of
                                          Inl e \<Rightarrow> (Inl e, d1)
                                        | Inr _ \<Rightarrow>
                                            (Inr (Some
                                               \<lparr>previousMascot = (mascot_id user, mascot_name user),
                                                newMascot = nm,
                                                ev_badgeType = badgeType,
                                                ev_badgeName = badgeName,
                                                evolutionLevel = (if crossedLevel10 then 10 else 5)\<rparr>),
                                             d1))))))))))"

section \<open>Habit updates (routes/habits.js)\<close>

definition MAX_MANUAL_STEPS :: int where "MAX_MANUAL_STEPS = 50000"
definition STEP_BONUS_INCREMENT :: int where "STEP_BONUS_INCREMENT = 500"
definition STEP_BONUS_XP :: int where "STEP_BONUS_XP = 5"
definition TWO_HOURS_MS :: int where "TWO_HOURS_MS = 2 * 60 * 60 * 1000"
definition MOVEMENT_XP :: int where "MOVEMENT_XP = 15"
definition HYDRATION_GLASS_XP :: int where "HYDRATION_GLASS_XP = 5"
definition HYDRATION_GOAL_BONUS_XP :: int where "HYDRATION_GOAL_BONUS_XP = 20"
definition SLEEP_LOG_XP :: int where "SLEEP_LOG_XP = 5"
definition SLEEP_GOAL_BONUS_XP :: int where "SLEEP_GOAL_BONUS_XP = 15"

text \<open>\<open>SLEEP_GOAL_HOURS = 7\<close>, in tenths of an hour like \<open>sleep_hours\<close>.\<close>

definition SLEEP_GOAL_HOURS :: int where "SLEEP_GOAL_HOURS = 70"

record level_info =
  li_previousLevel :: "int option"
  li_newLevel :: "int option"
  leveledUp :: bool

definition applyXpToUser :: "db \<Rightarrow> user_id \<Rightarrow> int \<Rightarrow> error + (db \<times> level_info)" where
  "applyXpToUser d userId xpDelta =
     (if xpDelta \<le> 0 then
        Inr (d, \<lparr>li_previousLevel = None, li_newLevel = None, leveledUp = False\<rparr>)
      else
        (case users d userId of
           None \<Rightarrow> Inl InternalError
         | Some user \<Rightarrow>
             (let prevLevel = level user;
                  newXpTotal = xp_total user + xpDelta;
                  newLvl = getLevelForXp newXpTotal
              in Inr (d\<lparr>users := (users d)(userId \<mapsto> user\<lparr>xp_total := newXpTotal, level := newLvl\<rparr>)\<rparr>,
                      \<lparr>li_previousLevel = Some prevLevel, li_newLevel = Some newLvl,
                       leveledUp = (newLvl > prevLevel)\<rparr>))))"

text \<open>The row that \<open>INSERT\<close> creates before the handler's fields are written: the column defaults.\<close>

definition new_daily_log :: "timestamp \<Rightarrow> daily_log" where
  "new_daily_log now =
     \<lparr>steps = None, hydration_glasses = None, sleep_hours = None, movement_done = 0,
      vegetables_count = None, xp_earned = 0, created_at = now, updated_at = now,
      steps_manual = None, steps_google_fit = None, steps_goal_xp_awarded = 0,
      steps_last_bonus_at = None, movement_xp_awarded = 0, hydration_xp_glasses = 0,
      hydration_goal_xp_awarded = 0, sleep_start = None, sleep_end = None,
      sleep_xp_start_awarded = 0, sleep_xp_end_awarded = 0, sleep_goal_xp_awarded = 0,
      food_vegetables = 0, food_no_junk = 0, food_breakfast = 0, food_veg_xp_awarded = 0,
      food_nojunk_xp_awarded = 0, food_breakfast_xp_awarded = 0\<rparr>"

text \<open>The part of the JSON response that reports XP.\<close>

record response =
  xpAwarded :: int
  xpTotal :: int
  resp_level :: int
  levelUp :: "(int option \<times> int option) option"
  xpEarned :: int

text \<open>
  The tail shared, statement for statement, by the five handlers: the \<open>fields\<close>
  object gets \<open>updated_at\<close> and, when \<open>xpDelta > 0\<close>, \<open>xp_earned\<close>; the
  transaction \<open>applyUpdate\<close> updates the existing row or inserts a new one
  (\<open>written_row\<close> is the row afterwards) and applies the XP to the user; the row
  and the user are read back for the response. The argument
  \<open>fieldWrites\<close> is the handler's own column writes. \<open>requireAuth\<close> has loaded
  \<open>req.user\<close> from \<open>users\<close>, and \<open>daily_logs.user_id\<close> references
  \<open>users(id)\<close> with foreign keys on: for a user id without a \<open>users\<close> row the
  request ends in an exception with nothing committed.
\<close>

definition written_row ::
  "timestamp \<Rightarrow> daily_log option \<Rightarrow> (daily_log \<Rightarrow> daily_log) \<Rightarrow> int \<Rightarrow> daily_log" where
  "written_row now existing fieldWrites xpDelta =
     (let base = (case existing of None \<Rightarrow> new_daily_log now | Some r \<Rightarrow> r);
          row0 = (fieldWrites base)\<lparr>updated_at := now\<rparr>
      in if xpDelta > 0
         then row0\<lparr>xp_earned := (case existing of None \<Rightarrow> 0 | Some r \<Rightarrow> xp_earned r) + xpDelta\<rparr>
         else row0)"

definition applyUpdate ::
  "db \<Rightarrow> user_id \<Rightarrow> date \<Rightarrow> timestamp \<Rightarrow> daily_log option \<Rightarrow> (daily_log \<Rightarrow> daily_log) \<Rightarrow> int
     \<Rightarrow> error + (db \<times> response)" where
  "applyUpdate d userId today now existing fieldWrites xpDelta =
     (case users d userId of
        None \<Rightarrow> Inl InternalError
      | Some _ \<Rightarrow>
          (let row = written_row now existing fieldWrites xpDelta;
               d1 = d\<lparr>daily_logs := (daily_logs d)((userId, today) \<mapsto> row)\<rparr>
           in case applyXpToUser d1 userId xpDelta of
                Inl e \<Rightarrow> Inl e
              | Inr (d2, levelInfo) \<Rightarrow>
                  (case users d2 userId of
                     None \<Rightarrow> Inl InternalError
                   | Some updatedUser \<Rightarrow>
                       Inr (d2, \<lparr>xpAwarded = xpDelta,
                                 xpTotal = xp_total updatedUser,
                                 resp_level = level updatedUser,
                                 levelUp = (if leveledUp levelInfo
                                            then Some (li_previousLevel levelInfo, li_newLevel levelInfo)
                                            else None),
                                 xpEarned = xp_earned row\<rparr>))))"

text \<open>
  A JSON value of the request body, as far as the handlers tell values apart: a boolean,
  an integer, or anything else.
\<close>

datatype js_value = JBool bool | JNumber int | JOther

definition is_flag_value :: "js_value \<Rightarrow> bool" where
  "is_flag_value v = (case v of JBool _ \<Rightarrow> True | JNumber n \<Rightarrow> n = 0 \<or> n = 1 | JOther \<Rightarrow> False)"

definition is_done :: "js_value \<Rightarrow> bool" where
  "is_done v = (v = JBool True \<or> v = JNumber 1)"

subsection \<open>Movement\<close>

text \<open>
  Each handler first computes, from the existing row (or its absence) and the validated
  input, the values to store and the raw XP delta. These constants of the handler are
  collected in a record, under the names they have in the source.
\<close>

record movement_calc =
  mv_processedValue :: int
  mv_newXpAwarded :: int
  mv_rawXpDelta :: int

definition movement_rule :: "daily_log option \<Rightarrow> js_value \<Rightarrow> movement_calc" where
  "movement_rule existing v =
     (let done = is_done v;
          processedValue = (if done then 1 else 0);
          prevXpAwarded = (case existing of None \<Rightarrow> 0 | Some r \<Rightarrow> movement_xp_awarded r);
          newXpAwarded = (if done \<and> prevXpAwarded = 0 then 1 else prevXpAwarded);
          rawXpDelta = (if newXpAwarded = 1 \<and> prevXpAwarded = 0 then MOVEMENT_XP else 0)
      in \<lparr>mv_processedValue = processedValue, mv_newXpAwarded = newXpAwarded,
          mv_rawXpDelta = rawXpDelta\<rparr>)"

definition handleMovementUpdate ::
  "db \<Rightarrow> user_id \<Rightarrow> date \<Rightarrow> timestamp \<Rightarrow> js_value \<Rightarrow> error + (db \<times> response)" where
  "handleMovementUpdate d userId today now v =
     (if \<not> is_flag_value v then Inl BadRequest
      else
        (let existing = daily_logs d (userId, today);
             c = movement_rule existing v;
             currentDayXp = (case existing of None \<Rightarrow> 0 | Some r \<Rightarrow> xp_earned r);
             xpDelta = capDailyXp (Some currentDayXp) (mv_rawXpDelta c)
         in applyUpdate d userId today now existing
              (\<lambda>r. r\<lparr>movement_done := mv_processedValue c,
                      movement_xp_awarded := mv_newXpAwarded c\<rparr>)
              xpDelta))"

subsection \<open>Hydration\<close>

record hydration_calc =
  newXpGlasses :: int
  glassXpDelta :: int
  newGoalAwarded :: int
  goalXpDelta :: int

definition hydration_rule :: "daily_log option \<Rightarrow> int \<Rightarrow> int \<Rightarrow> hydration_calc" where
  "hydration_rule existing glasses hydrationGoal =
     (let prevXpGlasses = (case existing of None \<Rightarrow> 0 | Some r \<Rightarrow> hydration_xp_glasses r);
          nxg = max prevXpGlasses glasses;
          gxd = max 0 (nxg - prevXpGlasses) * HYDRATION_GLASS_XP;
          prevGoalAwarded = (case existing of None \<Rightarrow> 0 | Some r \<Rightarrow> hydration_goal_xp_awarded r);
          goalMet = (glasses \<ge> hydrationGoal);
          nga = (if goalMet \<and> prevGoalAwarded = 0 then 1 else prevGoalAwarded);
          goxd = (if nga = 1 \<and> prevGoalAwarded = 0 then HYDRATION_GOAL_BONUS_XP else 0)
      in \<lparr>newXpGlasses = nxg, glassXpDelta = gxd, newGoalAwarded = nga, goalXpDelta = goxd\<rparr>)"

text \<open>
  The argument \<open>parsed\<close> is \<open>parseInt(value, 10)\<close>, with \<open>None\<close> for \<open>NaN\<close>.
\<close>

definition handleHydrationUpdate ::
  "db \<Rightarrow> user_id \<Rightarrow> date \<Rightarrow> timestamp \<Rightarrow> int option \<Rightarrow> error + (db \<times> response)" where
  "handleHydrationUpdate d userId today now parsed =
     (case parsed of
        None \<Rightarrow> Inl BadRequest
      | Some glasses \<Rightarrow>
          if glasses < 0 then Inl BadRequest
          else
            (let hydrationGoal = (case habits_config d userId of None \<Rightarrow> 8
                                  | Some g \<Rightarrow> cfg_hydration_glasses g);
                 existing = daily_logs d (userId, today);
                 c = hydration_rule existing glasses hydrationGoal;
                 rawXpDelta = glassXpDelta c + goalXpDelta c;
                 currentDayXp = (case existing of None \<Rightarrow> 0 | Some r \<Rightarrow> xp_earned r);
                 xpDelta = capDailyXp (Some currentDayXp) rawXpDelta
             in applyUpdate d userId today now existing
                  (\<lambda>r. r\<lparr>hydration_glasses := Some glasses,
                          hydration_xp_glasses := newXpGlasses c,
                          hydration_goal_xp_awarded := newGoalAwarded c\<rparr>)
                  xpDelta))"

subsection \<open>Sleep\<close>

text \<open>
  \<open>!x\<close> on a string that may be missing: \<open>null\<close>, \<open>undefined\<close> and the empty
  string are falsy. \<open>effective x ex\<close> is \<open>x || ex || null\<close>.
\<close>

definition truthy :: "string option \<Rightarrow> bool" where
  "truthy x = (case x of None \<Rightarrow> False | Some s \<Rightarrow> s \<noteq> [])"

definition effective :: "string option \<Rightarrow> string option \<Rightarrow> string option" where
  "effective x ex = (if truthy x then x else if truthy ex then ex else None)"

definition is_digit :: "char \<Rightarrow> bool" where
  "is_digit c = (c \<in> set ''0123456789'')"

definition digit_val :: "char \<Rightarrow> int" where
  "digit_val c = int (of_char c) - 48"

text \<open>The test of \<open>/^([01]\d|2[0-3]):[0-5]\d$/\<close>.\<close>

definition timeRegex_test :: "string \<Rightarrow> bool" where
  "timeRegex_test s =
     (case s of
        [a, b, c, d, e] \<Rightarrow>
          ((a \<in> set ''01'' \<and> is_digit b) \<or> (a = CHR ''2'' \<and> b \<in> set ''0123'')) \<and>
          c = CHR '':'' \<and> d \<in> set ''012345'' \<and> is_digit e
      | _ \<Rightarrow> False)"

text \<open>
  \<open>const [h, m] = t.split(":").map(Number)\<close> and \<open>h * 60 + m\<close>. Every time
  string that reaches this point has passed the regex, in this request or in the one
  that stored it; for any other string the minutes are \<open>None\<close>.
\<close>

definition time_minutes :: "string \<Rightarrow> int option" where
  "time_minutes s =
     (case s of
        [a, b, c, d, e] \<Rightarrow>
          if timeRegex_test s
          then Some ((digit_val a * 10 + digit_val b) * 60 + (digit_val d * 10 + digit_val e))
          else None
      | _ \<Rightarrow> None)"

text \<open>
  \<open>sleepHours = Math.round((diffMin / 60) * 10) / 10\<close>, in tenths of an hour. For
  every \<open>diffMin\<close> from 0 to 1439 the double-precision value of
  \<open>Math.round((diffMin / 60) * 10)\<close> is \<open>(diffMin + 3) div 6\<close>, the nearest
  integer to \<open>diffMin / 6\<close> with halves rounded up.
\<close>

definition sleep_hours_of :: "string option \<Rightarrow> string option \<Rightarrow> int option" where
  "sleep_hours_of effectiveStart effectiveEnd =
     (case (effectiveStart, effectiveEnd) of
        (Some s, Some e) \<Rightarrow>
          (case (time_minutes s, time_minutes e) of
             (Some startMin, Some endMin) \<Rightarrow>
               (let diffMin = (if endMin \<ge> startMin then endMin - startMin
                               else 1440 - startMin + endMin)
                in Some ((diffMin + 3) div 6))
           | _ \<Rightarrow> None)
      | _ \<Rightarrow> None)"

definition bad_time :: "string option \<Rightarrow> bool" where
  "bad_time x = (case x of None \<Rightarrow> False | Some s \<Rightarrow> s \<noteq> [] \<and> \<not> timeRegex_test s)"

record sleep_calc =
  effectiveStart :: "string option"
  effectiveEnd :: "string option"
  sleepHours :: "int option"
  sl_newStartAwarded :: int
  sl_newEndAwarded :: int
  sl_newGoalAwarded :: int
  sl_rawXpDelta :: int

definition sleep_rule :: "daily_log option \<Rightarrow> string option \<Rightarrow> string option \<Rightarrow> sleep_calc" where
  "sleep_rule existing sleepStart sleepEnd =
     (let es = effective sleepStart (case existing of None \<Rightarrow> None | Some r \<Rightarrow> sleep_start r);
          ee = effective sleepEnd (case existing of None \<Rightarrow> None | Some r \<Rightarrow> sleep_end r);
          sh = sleep_hours_of es ee;
          prevStartAwarded = (case existing of None \<Rightarrow> 0 | Some r \<Rightarrow> sleep_xp_start_awarded r);
          newStartAwarded = (if es \<noteq> None \<and> prevStartAwarded = 0 then 1 else prevStartAwarded);
          raw1 = (if newStartAwarded = 1 \<and> prevStartAwarded = 0 then SLEEP_LOG_XP else 0);
          prevEndAwarded = (case existing of None \<Rightarrow> 0 | Some r \<Rightarrow> sleep_xp_end_awarded r);
          newEndAwarded = (if ee \<noteq> None \<and> prevEndAwarded = 0 then 1 else prevEndAwarded);
          raw2 = (if newEndAwarded = 1 \<and> prevEndAwarded = 0 then raw1 + SLEEP_LOG_XP else raw1);
          prevGoalAwarded = (case existing of None \<Rightarrow> 0 | Some r \<Rightarrow> sleep_goal_xp_awarded r);
          goalMet = (case sh of None \<Rightarrow> False | Some t \<Rightarrow> t \<ge> SLEEP_GOAL_HOURS);
          newGoalAwd = (if goalMet \<and> prevGoalAwarded = 0 then 1 else prevGoalAwarded);
          raw3 = (if newGoalAwd = 1 \<and> prevGoalAwarded = 0 then raw2 + SLEEP_GOAL_BONUS_XP else raw2)
      in \<lparr>effectiveStart = es, effectiveEnd = ee, sleepHours = sh,
          sl_newStartAwarded = newStartAwarded, sl_newEndAwarded = newEndAwarded,
          sl_newGoalAwarded = newGoalAwd, sl_rawXpDelta = raw3\<rparr>)"

text \<open>
  The column writes of the sleep handler: the three flags always, the times and the hours
  only when they are present.
\<close>

definition sleep_fields :: "sleep_calc \<Rightarrow> daily_log \<Rightarrow> daily_log" where
  "sleep_fields c r =
     (let r1 = r\<lparr>sleep_xp_start_awarded := sl_newStartAwarded c,
                  sleep_xp_end_awarded := sl_newEndAwarded c,
                  sleep_goal_xp_awarded := sl_newGoalAwarded c\<rparr>;
          r2 = (if effectiveStart c \<noteq> None then r1\<lparr>sleep_start := effectiveStart c\<rparr> else r1);
          r3 = (if effectiveEnd c \<noteq> None then r2\<lparr>sleep_end := effectiveEnd c\<rparr> else r2)
      in if sleepHours c \<noteq> None then r3\<lparr>sleep_hours := sleepHours c\<rparr> else r3)"

definition handleSleepUpdate ::
  "db \<Rightarrow> user_id \<Rightarrow> date \<Rightarrow> timestamp \<Rightarrow> string option \<Rightarrow> string option \<Rightarrow> error + (db \<times> response)" where
  "handleSleepUpdate d userId today now sleepStart sleepEnd =
     (if \<not> truthy sleepStart \<and> \<not> truthy sleepEnd then Inl BadRequest
      else if bad_time sleepStart then Inl BadRequest
      else if bad_time sleepEnd then Inl BadRequest
      else
        (let existing = daily_logs d (userId, today);
             c = sleep_rule existing sleepStart sleepEnd;
             currentDayXp = (case existing of None \<Rightarrow> 0 | Some r \<Rightarrow> xp_earned r);
             xpDelta = capDailyXp (Some currentDayXp) (sl_rawXpDelta c)
         in applyUpdate d userId today now existing (sleep_fields c) xpDelta))"

subsection \<open>Food\<close>

datatype food_item = Vegetables | NoJunk | Breakfast

definition FOOD_HABITS :: "string \<rightharpoonup> food_item" where
  "FOOD_HABITS = map_of [(''vegetables'', Vegetables), (''no_junk'', NoJunk), (''breakfast'', Breakfast)]"

fun food_xp :: "food_item \<Rightarrow> int" where
  "food_xp Vegetables = 10"
| "food_xp NoJunk = 10"
| "food_xp Breakfast = 5"

text \<open>Reading \<open>existing[habit.xpCol]\<close> and writing \<open>habit.col\<close> and \<open>habit.xpCol\<close>.\<close>

fun food_xpCol :: "food_item \<Rightarrow> daily_log \<Rightarrow> int" where
  "food_xpCol Vegetables r = food_veg_xp_awarded r"
| "food_xpCol NoJunk r = food_nojunk_xp_awarded r"
| "food_xpCol Breakfast r = food_breakfast_xp_awarded r"

fun write_food :: "food_item \<Rightarrow> int \<Rightarrow> int \<Rightarrow> daily_log \<Rightarrow> daily_log" where
  "write_food Vegetables v a r = r\<lparr>food_vegetables := v, food_veg_xp_awarded := a\<rparr>"
| "write_food NoJunk v a r = r\<lparr>food_no_junk := v, food_nojunk_xp_awarded := a\<rparr>"
| "write_food Breakfast v a r = r\<lparr>food_breakfast := v, food_breakfast_xp_awarded := a\<rparr>"

record food_calc =
  fd_processedValue :: int
  fd_newXpAwarded :: int
  fd_rawXpDelta :: int

definition food_rule :: "daily_log option \<Rightarrow> food_item \<Rightarrow> js_value \<Rightarrow> food_calc" where
  "food_rule existing habit checked =
     (let done = is_done checked;
          processedValue = (if done then 1 else 0);
          prevXpAwarded = (case existing of None \<Rightarrow> 0 | Some r \<Rightarrow> food_xpCol habit r);
          newXpAwarded = (if done \<and> prevXpAwarded = 0 then 1 else prevXpAwarded);
          rawXpDelta = (if newXpAwarded = 1 \<and> prevXpAwarded = 0 then food_xp habit else 0)
      in \<lparr>fd_processedValue = processedValue, fd_newXpAwarded = newXpAwarded,
          fd_rawXpDelta = rawXpDelta\<rparr>)"

definition handleFoodUpdate ::
  "db \<Rightarrow> user_id \<Rightarrow> date \<Rightarrow> timestamp \<Rightarrow> string option \<Rightarrow> js_value \<Rightarrow> error + (db \<times> response)" where
  "handleFoodUpdate d userId today now item checked =
     (case (case item of None \<Rightarrow> None | Some i \<Rightarrow> FOOD_HABITS i) of
        None \<Rightarrow> Inl BadRequest
      | Some habit \<Rightarrow>
          if \<not> is_flag_value checked then Inl BadRequest
          else
            (let existing = daily_logs d (userId, today);
                 c = food_rule existing habit checked;
                 currentDayXp = (case existing of None \<Rightarrow> 0 | Some r \<Rightarrow> xp_earned r);
                 xpDelta = capDailyXp (Some currentDayXp) (fd_rawXpDelta c)
             in applyUpdate d userId today now existing
                  (write_food habit (fd_processedValue c) (fd_newXpAwarded c)) xpDelta))"

subsection \<open>Steps\<close>

text \<open>
  The constants of \<open>handleStepsUpdate\<close>, from the existing row, the validated input,
  the goal and the two clock readings (\<open>now\<close>, taken by the router and stored, and
  \<open>Date.now()\<close>, taken by the handler for the cooldown). \<open>sc_bonus\<close> is the
  condition under which the handler adds \<open>STEP_BONUS_XP\<close>.
\<close>

record steps_calc =
  newManual :: "int option"
  newGoogleFit :: "int option"
  effectiveSteps :: int
  newGoalXpAwarded :: int
  sc_bonus :: bool
  sc_rawXpDelta :: int
  newLastBonusAt :: "timestamp option"

definition steps_rule ::
  "daily_log option \<Rightarrow> string \<Rightarrow> int \<Rightarrow> int \<Rightarrow> timestamp \<Rightarrow> timestamp \<Rightarrow> steps_calc" where
  "steps_rule existing source stepsVal stepGoal now dateNow =
     (let goalXp = (if stepGoal = 5000 then 20 else 40);
          prevManual = (case existing of None \<Rightarrow> 0
                        | Some r \<Rightarrow> (case steps_manual r of None \<Rightarrow> 0 | Some m \<Rightarrow> m));
          nm = (if source = ''manual'' then Some stepsVal
                else (case existing of None \<Rightarrow> None | Some r \<Rightarrow> steps_manual r));
          ng = (if source = ''google_fit'' then Some stepsVal
                else (case existing of None \<Rightarrow> None | Some r \<Rightarrow> steps_google_fit r));
          eff = max (case nm of None \<Rightarrow> 0 | Some m \<Rightarrow> m) (case ng of None \<Rightarrow> 0 | Some g \<Rightarrow> g);
          prevGoalXpAwarded = (case existing of None \<Rightarrow> 0 | Some r \<Rightarrow> steps_goal_xp_awarded r);
          nga = (if eff \<ge> stepGoal \<and> prevGoalXpAwarded = 0 then 1 else prevGoalXpAwarded);
          raw1 = (if nga = 1 \<and> prevGoalXpAwarded = 0 then goalXp else 0);
          lastBonusAt = (case existing of None \<Rightarrow> None | Some r \<Rightarrow> steps_last_bonus_at r);
          stepIncrease = stepsVal - prevManual;
          lastBonusMs = (case lastBonusAt of None \<Rightarrow> 0 | Some t \<Rightarrow> t);
          cooldownPassed = (dateNow - lastBonusMs \<ge> TWO_HOURS_MS);
          bonus = (source = ''manual'' \<and> stepIncrease \<ge> STEP_BONUS_INCREMENT \<and> cooldownPassed)
      in \<lparr>newManual = nm, newGoogleFit = ng, effectiveSteps = eff, newGoalXpAwarded = nga,
          sc_bonus = bonus,
          sc_rawXpDelta = (if bonus then raw1 + STEP_BONUS_XP else raw1),
          newLastBonusAt = (if bonus then Some now else lastBonusAt)\<rparr>)"

text \<open>
  \<open>parsed\<close> is \<open>parseInt(value, 10)\<close> (\<open>None\<close> for \<open>NaN\<close>) and \<open>src\<close> is
  \<open>req.body.source\<close>.
\<close>

definition steps_fields :: "string \<Rightarrow> steps_calc \<Rightarrow> daily_log \<Rightarrow> daily_log" where
  "steps_fields source c r =
     (let r1 = r\<lparr>steps := Some (effectiveSteps c),
                  steps_goal_xp_awarded := newGoalXpAwarded c,
                  steps_last_bonus_at := newLastBonusAt c\<rparr>
      in if source = ''manual'' then r1\<lparr>steps_manual := newManual c\<rparr>
         else r1\<lparr>steps_google_fit := newGoogleFit c\<rparr>)"

definition handleStepsUpdate ::
  "db \<Rightarrow> user_id \<Rightarrow> date \<Rightarrow> timestamp \<Rightarrow> timestamp \<Rightarrow> int option \<Rightarrow> string option
     \<Rightarrow> error + (db \<times> response)" where
  "handleStepsUpdate d userId today now dateNow parsed src =
     (let source = (if truthy src then (case src of None \<Rightarrow> ''manual'' | Some s \<Rightarrow> s) else ''manual'')
      in if source \<noteq> ''manual'' \<and> source \<noteq> ''google_fit'' then Inl BadRequest
         else
           (case parsed of
              None \<Rightarrow> Inl BadRequest
            | Some stepsVal \<Rightarrow>
                if stepsVal < 0 then Inl BadRequest
                else if source = ''manual'' \<and> stepsVal > MAX_MANUAL_STEPS then Inl BadRequest
                else
                  (let stepGoal = (case habits_config d userId of None \<Rightarrow> 10000
                                   | Some g \<Rightarrow> cfg_daily_steps g);
                       existing = daily_logs d (userId, today);
                       c = steps_rule existing source stepsVal stepGoal now dateNow;
                       currentDayXp = (case existing of None \<Rightarrow> 0 | Some r \<Rightarrow> xp_earned r);
                       xpDelta = capDailyXp (Some currentDayXp) (sc_rawXpDelta c)
                   in applyUpdate d userId today now existing (steps_fields source c) xpDelta)))"

subsection \<open>The route \<open>PATCH /api/habits/today/:category\<close>\<close>

text \<open>
  A request is its category with the body fields that the category's handler reads. The
  sixth category of the route, \<open>vegetables\<close>, writes \<open>vegetables_count\<close> and
  \<open>updated_at\<close> only and awards no XP; it is left out.
\<close>

datatype request =
    StepsReq "int option" "string option"
  | MovementReq js_value
  | HydrationReq "int option"
  | SleepReq "string option" "string option"
  | FoodReq "string option" js_value

fun patch_today ::
  "db \<Rightarrow> user_id \<Rightarrow> date \<Rightarrow> timestamp \<Rightarrow> timestamp \<Rightarrow> request \<Rightarrow> error + (db \<times> response)" where
  "patch_today d userId today now dateNow (StepsReq v src) = handleStepsUpdate d userId today now dateNow v src"
| "patch_today d userId today now dateNow (MovementReq v) = handleMovementUpdate d userId today now v"
| "patch_today d userId today now dateNow (HydrationReq v) = handleHydrationUpdate d userId today now v"
| "patch_today d userId today now dateNow (SleepReq s e) = handleSleepUpdate d userId today now s e"
| "patch_today d userId today now dateNow (FoodReq i c) = handleFoodUpdate d userId today now i c"

text \<open>
  A sequence of requests, each by some user on some day at some time. A request that
  is answered with an error commits nothing, and the next request is served.
\<close>

fun serve :: "db \<Rightarrow> (user_id \<times> date \<times> timestamp \<times> timestamp \<times> request) list \<Rightarrow> db" where
  "serve d [] = d"
| "serve d ((userId, today, now, dateNow, r) # rs) =
     (case patch_today d userId today now dateNow r of
        Inl _ \<Rightarrow> serve d rs
      | Inr (d', _) \<Rightarrow> serve d' rs)"



section \<open>The day's total and the effect of an accepted update\<close>

text \<open>\<open>xp_earned\<close> of a user's row for a day; 0 when there is no row.\<close>

definition day_xp :: "db \<Rightarrow> user_id \<Rightarrow> date \<Rightarrow> int" where
  "day_xp d userId today = (case daily_logs d (userId, today) of None \<Rightarrow> 0 | Some r \<Rightarrow> xp_earned r)"

text \<open>
  What an accepted update of the row of \<open>userId\<close> for \<open>today\<close> does to the
  ledger: the day's total grows by the awarded XP, which is not negative and not more
  than the room left under the cap, and no other row changes.
\<close>

definition step_ok :: "db \<Rightarrow> user_id \<Rightarrow> date \<Rightarrow> db \<Rightarrow> response \<Rightarrow> bool" where
  "step_ok d userId today d' resp \<longleftrightarrow>
     day_xp d' userId today = day_xp d userId today + xpAwarded resp \<and>
     0 \<le> xpAwarded resp \<and>
     xpAwarded resp \<le> max 0 (DAILY_XP_CAP - day_xp d userId today) \<and>
     (\<forall>k. k \<noteq> (userId, today) \<longrightarrow> daily_logs d' k = daily_logs d k)"

text \<open>
  The stored hydration high-water mark of a user's day (\<open>hydration_xp_glasses\<close>), the
  stored manual step count and the stored time of the last step bonus; 0 or \<open>None\<close>
  when there is no row, as the handlers read them.
\<close>

definition hydration_mark :: "db \<Rightarrow> user_id \<Rightarrow> date \<Rightarrow> int" where
  "hydration_mark d userId today =
     (case daily_logs d (userId, today) of None \<Rightarrow> 0 | Some r \<Rightarrow> hydration_xp_glasses r)"

definition stored_manual :: "db \<Rightarrow> user_id \<Rightarrow> date \<Rightarrow> int" where
  "stored_manual d userId today =
     (case daily_logs d (userId, today) of None \<Rightarrow> 0
      | Some r \<Rightarrow> (case steps_manual r of None \<Rightarrow> 0 | Some m \<Rightarrow> m))"

definition stored_last_bonus :: "db \<Rightarrow> user_id \<Rightarrow> date \<Rightarrow> timestamp option" where
  "stored_last_bonus d userId today =
     (case daily_logs d (userId, today) of None \<Rightarrow> None | Some r \<Rightarrow> steps_last_bonus_at r)"

text \<open>
  The hydration goal and the step goal a handler uses (the configured one, or the
  default 8 glasses and 10,000 steps), and the stored hydration goal flag.
\<close>

definition hydration_goal_of :: "db \<Rightarrow> user_id \<Rightarrow> int" where
  "hydration_goal_of d userId =
     (case habits_config d userId of None \<Rightarrow> 8 | Some g \<Rightarrow> cfg_hydration_glasses g)"

definition step_goal_of :: "db \<Rightarrow> user_id \<Rightarrow> int" where
  "step_goal_of d userId =
     (case habits_config d userId of None \<Rightarrow> 10000 | Some g \<Rightarrow> cfg_daily_steps g)"

definition hydration_goal_flag :: "db \<Rightarrow> user_id \<Rightarrow> date \<Rightarrow> int" where
  "hydration_goal_flag d userId today =
     (case daily_logs d (userId, today) of None \<Rightarrow> 0 | Some r \<Rightarrow> hydration_goal_xp_awarded r)"

text \<open>
  The source a steps request counts for (\<open>req.body.source || "manual"\<close>), and the
  stored goal flag of the steps category.
\<close>

definition steps_source :: "string option \<Rightarrow> string" where
  "steps_source src =
     (if truthy src then (case src of None \<Rightarrow> ''manual'' | Some s \<Rightarrow> s) else ''manual'')"

definition steps_goal_flag :: "db \<Rightarrow> user_id \<Rightarrow> date \<Rightarrow> int" where
  "steps_goal_flag d userId today =
     (case daily_logs d (userId, today) of None \<Rightarrow> 0 | Some r \<Rightarrow> steps_goal_xp_awarded r)"

section \<open>Example states\<close>

text \<open>
  A user who has been evaluated up to day 0, with three logged days: four categories
  complete on day 1, one on day 2, five on day 3, and nothing logged on day 4.
\<close>

definition example_user :: user_row where
  "example_user =
     \<lparr>xp_total = 0, level = 1, current_streak = 0, longest_streak = 0, streak_shields = 0,
      streak_last_evaluated_date = Some 0, bmi_category = Some ''normal'',
      mascot_id = Some 2, mascot_name = Some ''Energetic Fox''\<rparr>"

definition example_streak_db :: db where
  "example_streak_db =
     \<lparr>users = [''u1'' \<mapsto> example_user],
      daily_logs =
        [(''u1'', 1) \<mapsto> (new_daily_log 0)\<lparr>steps := Some 10000, hydration_glasses := Some 8,
                                            sleep_hours := Some 70, movement_done := 1\<rparr>,
         (''u1'', 2) \<mapsto> (new_daily_log 0)\<lparr>movement_done := 1\<rparr>,
         (''u1'', 3) \<mapsto> (new_daily_log 0)\<lparr>steps := Some 12000, hydration_glasses := Some 9,
                                            sleep_hours := Some 75, movement_done := 1,
                                            food_breakfast := 1\<rparr>],
      habits_config = Map.empty\<rparr>"

text \<open>The same store with a seven-day streak, one banked shield, evaluated up to day 3.\<close>

definition example_shield_db :: db where
  "example_shield_db =
     example_streak_db\<lparr>users := [''u1'' \<mapsto>
        example_user\<lparr>current_streak := 7, longest_streak := 9, streak_shields := 1,
                     streak_last_evaluated_date := Some 3\<rparr>]\<rparr>"

text \<open>The first store with 145 XP already earned on day 5.\<close>

definition example_cap_db :: db where
  "example_cap_db =
     example_streak_db\<lparr>daily_logs :=
        (daily_logs example_streak_db)((''u1'', 5) \<mapsto> (new_daily_log 0)\<lparr>xp_earned := 145\<rparr>)\<rparr>"

section \<open>Properties of the level table\<close>

lemma LEVEL_THRESHOLDS_length: "length LEVEL_THRESHOLDS = 100"
  unfolding LEVEL_THRESHOLDS_def buildLevelThresholds_def by code_simp

lemma LEVEL_THRESHOLDS_strict: "sorted_wrt (<) LEVEL_THRESHOLDS"
  unfolding LEVEL_THRESHOLDS_def buildLevelThresholds_def by code_simp

lemma LEVEL_THRESHOLDS_seed:
  "LEVEL_THRESHOLDS ! 0 = 0" "LEVEL_THRESHOLDS ! 1 = 500" "LEVEL_THRESHOLDS ! 2 = 1200"
  unfolding LEVEL_THRESHOLDS_def buildLevelThresholds_def by code_simp+

lemma LEVEL_THRESHOLDS_growth:
  "list_all (\<lambda>i. LEVEL_THRESHOLDS ! i =
       LEVEL_THRESHOLDS ! (i - 1) +
       round_times_1_2 (LEVEL_THRESHOLDS ! (i - 1) - LEVEL_THRESHOLDS ! (i - 2))) [3..<100]"
  unfolding LEVEL_THRESHOLDS_def buildLevelThresholds_def by code_simp

lemma getLevelForXp_loop_spec:
  shows "sorted_wrt (<) ths \<Longrightarrow> 1 \<le> i \<Longrightarrow> i \<le> length ths \<Longrightarrow> lvl = int i \<Longrightarrow> ths ! (i - 1) \<le> xp \<Longrightarrow>
     (let L = getLevelForXp_loop ths xp i lvl
      in int i \<le> L \<and> L \<le> int (length ths) \<and> ths ! (nat L - 1) \<le> xp \<and>
         (\<forall>j. nat L \<le> j \<and> j < length ths \<longrightarrow> xp < ths ! j))"
proof (induction ths xp i lvl rule: getLevelForXp_loop.induct)
  case (1 ths xp i lvl)
  show ?case
  proof (cases "i < length ths")
    case False
    with "1.prems" show ?thesis
      by (subst getLevelForXp_loop.simps) simp
  next
    case inb: True
    show ?thesis
    proof (cases "xp \<ge> ths ! i")
      case True
      have "let L = getLevelForXp_loop ths xp (Suc i) (int i + 1)
            in int (Suc i) \<le> L \<and> L \<le> int (length ths) \<and> ths ! (nat L - 1) \<le> xp \<and>
               (\<forall>j. nat L \<le> j \<and> j < length ths \<longrightarrow> xp < ths ! j)"
        using "1.IH" [OF inb True "1.prems"(1)] inb True by simp
      then show ?thesis
        using inb True by (subst getLevelForXp_loop.simps) (simp add: Let_def)
    next
      case False
      have "xp < ths ! j" if "i \<le> j" "j < length ths" for j
      proof (cases "j = i")
        case True
        with False show ?thesis by simp
      next
        case False
        with that have "i < j" by simp
        then have "ths ! i < ths ! j"
          using sorted_wrt_nth_less [OF "1.prems"(1) _ that(2)] by simp
        with \<open>\<not> ths ! i \<le> xp\<close> show ?thesis by simp
      qed
      then show ?thesis
        using inb False "1.prems"
        by (subst getLevelForXp_loop.simps) (simp add: Let_def)
    qed
  qed
qed

lemma getLevelForXp_highest:
  assumes "0 \<le> xp"
  shows "1 \<le> getLevelForXp xp" "getLevelForXp xp \<le> 100"
    "LEVEL_THRESHOLDS ! (nat (getLevelForXp xp) - 1) \<le> xp"
    "\<And>j. nat (getLevelForXp xp) \<le> j \<Longrightarrow> j < 100 \<Longrightarrow> xp < LEVEL_THRESHOLDS ! j"
  using getLevelForXp_loop_spec [OF LEVEL_THRESHOLDS_strict, of 1 1 xp] assms
  by (simp_all add: getLevelForXp_def Let_def LEVEL_THRESHOLDS_length LEVEL_THRESHOLDS_seed)

lemma getLevelForXp_neg: "xp < 0 \<Longrightarrow> getLevelForXp xp = 1"
  unfolding getLevelForXp_def using LEVEL_THRESHOLDS_seed(2)
  by (subst getLevelForXp_loop.simps) (simp add: LEVEL_THRESHOLDS_length)

lemma getLevelForXp_mono:
  assumes "xp \<le> xp'"
  shows "getLevelForXp xp \<le> getLevelForXp xp'"
proof (cases "0 \<le> xp")
  case False
  then have "getLevelForXp xp = 1" by (simp add: getLevelForXp_neg)
  moreover have "1 \<le> getLevelForXp xp'"
  proof (cases "0 \<le> xp'")
    case True then show ?thesis by (rule getLevelForXp_highest(1))
  next
    case False then show ?thesis by (simp add: getLevelForXp_neg)
  qed
  ultimately show ?thesis by simp
next
  case True
  with assms have nn: "0 \<le> xp'" by simp
  show ?thesis
  proof (rule ccontr)
    assume "\<not> ?thesis"
    then have lt: "getLevelForXp xp' < getLevelForXp xp" by simp
    let ?j = "nat (getLevelForXp xp) - 1"
    have "nat (getLevelForXp xp') \<le> ?j" "?j < 100"
      using lt getLevelForXp_highest(1,2) [OF True] getLevelForXp_highest(1) [OF nn] by linarith+
    then have "xp' < LEVEL_THRESHOLDS ! ?j"
      by (rule getLevelForXp_highest(4) [OF nn])
    moreover have "LEVEL_THRESHOLDS ! ?j \<le> xp"
      by (rule getLevelForXp_highest(3) [OF True])
    ultimately show False using assms by simp
  qed
qed

lemma getLevelForXp_values:
  "getLevelForXp 0 = 1" "getLevelForXp 500 = 2" "getLevelForXp 1199 = 2" "getLevelForXp 1200 = 3"
  unfolding getLevelForXp_def LEVEL_THRESHOLDS_def buildLevelThresholds_def by code_simp+


lemma round_times_1_2_round: "round_times_1_2 n = round (real_of_int n * 1.2)"
proof -
  have "real_of_int n * 1.2 + 1 / 2 = real_of_int (12 * n + 5) / real_of_int 10"
    by simp
  then have "round (real_of_int n * 1.2) = \<lfloor>real_of_int (12 * n + 5) / real_of_int 10\<rfloor>"
    by (simp only: round_def)
  also have "\<dots> = (12 * n + 5) div 10"
    by (rule floor_divide_of_int_eq)
  finally show ?thesis by (simp add: round_times_1_2_def)
qed

lemma LEVEL_THRESHOLDS_growth_nth:
  assumes "3 \<le> i" "i < 100"
  shows "LEVEL_THRESHOLDS ! i = LEVEL_THRESHOLDS ! (i - 1) +
           round (real_of_int (LEVEL_THRESHOLDS ! (i - 1) - LEVEL_THRESHOLDS ! (i - 2)) * 1.2)"
proof -
  from assms have "i \<in> {3..<100}" by simp
  then have mem: "i \<in> set [3..<100]" by (simp only: set_upt)
  have "\<forall>i\<in>set [3..<100]. LEVEL_THRESHOLDS ! i =
       LEVEL_THRESHOLDS ! (i - 1) +
       round_times_1_2 (LEVEL_THRESHOLDS ! (i - 1) - LEVEL_THRESHOLDS ! (i - 2))"
    using LEVEL_THRESHOLDS_growth by (simp only: list_all_iff)
  from bspec [OF this mem] show ?thesis
    by (simp only: round_times_1_2_round)
qed


text \<open>
  Claim C9. The table of level thresholds has 100 entries; it starts with 0, 500 and
  1200, and each further threshold is the previous one plus the previous increment
  times 1.2, rounded to the nearest integer. For every non-negative \<open>xp\<close>,
  \<open>getLevelForXp xp\<close> is the highest level whose threshold is at most \<open>xp\<close>:
  the threshold of the returned level is at most \<open>xp\<close>, and the threshold of every
  higher level of the table is above \<open>xp\<close>. The level never decreases when \<open>xp\<close>
  grows, and the levels for 0, 500, 1199 and 1200 XP are 1, 2, 2 and 3.
\<close>

theorem getLevelForXp_spec:
  "length LEVEL_THRESHOLDS = 100 \<and>
   LEVEL_THRESHOLDS ! 0 = 0 \<and> LEVEL_THRESHOLDS ! 1 = 500 \<and> LEVEL_THRESHOLDS ! 2 = 1200 \<and>
   (\<forall>i. 3 \<le> i \<and> i < 100 \<longrightarrow>
      LEVEL_THRESHOLDS ! i = LEVEL_THRESHOLDS ! (i - 1) +
        round (real_of_int (LEVEL_THRESHOLDS ! (i - 1) - LEVEL_THRESHOLDS ! (i - 2)) * 1.2)) \<and>
   (0 \<le> xp \<longrightarrow>
      1 \<le> getLevelForXp xp \<and> getLevelForXp xp \<le> 100 \<and>
      LEVEL_THRESHOLDS ! (nat (getLevelForXp xp) - 1) \<le> xp \<and>
      (\<forall>L. getLevelForXp xp < L \<and> L \<le> 100 \<longrightarrow> xp < LEVEL_THRESHOLDS ! (nat L - 1))) \<and>
   (xp \<le> xp' \<longrightarrow> getLevelForXp xp \<le> getLevelForXp xp') \<and>
   getLevelForXp 0 = 1 \<and> getLevelForXp 500 = 2 \<and> getLevelForXp 1199 = 2 \<and> getLevelForXp 1200 = 3"
proof -
  have highest: "xp < LEVEL_THRESHOLDS ! (nat L - 1)"
    if "0 \<le> xp" "getLevelForXp xp < L" "L \<le> 100" for L
  proof -
    from that getLevelForXp_highest(1) [OF that(1)]
    have "nat (getLevelForXp xp) \<le> nat L - 1" "nat L - 1 < 100" by linarith+
    then show ?thesis by (rule getLevelForXp_highest(4) [OF that(1)])
  qed
  have table: "\<forall>i. 3 \<le> i \<and> i < 100 \<longrightarrow>
      LEVEL_THRESHOLDS ! i = LEVEL_THRESHOLDS ! (i - 1) +
        round (real_of_int (LEVEL_THRESHOLDS ! (i - 1) - LEVEL_THRESHOLDS ! (i - 2)) * 1.2)"
    using LEVEL_THRESHOLDS_growth_nth by blast
  have level: "0 \<le> xp \<longrightarrow>
      1 \<le> getLevelForXp xp \<and> getLevelForXp xp \<le> 100 \<and>
      LEVEL_THRESHOLDS ! (nat (getLevelForXp xp) - 1) \<le> xp \<and>
      (\<forall>L. getLevelForXp xp < L \<and> L \<le> 100 \<longrightarrow> xp < LEVEL_THRESHOLDS ! (nat L - 1))"
    using getLevelForXp_highest(1,2,3) highest by blast
  have mono: "xp \<le> xp' \<longrightarrow> getLevelForXp xp \<le> getLevelForXp xp'"
    using getLevelForXp_mono by blast
  from LEVEL_THRESHOLDS_length LEVEL_THRESHOLDS_seed table level mono getLevelForXp_values
  show ?thesis by (intro conjI)
qed

theorem getLevelForXp_spec_witness:
  "(0::int) \<le> 1199 \<and> (1199::int) \<le> 1200 \<and> (3::nat) \<le> 3 \<and> (3::nat) < 100 \<and>
   getLevelForXp 1199 < 3 \<and> (3::int) \<le> 100 \<and>
   LEVEL_THRESHOLDS ! 3 = LEVEL_THRESHOLDS ! (3 - 1) +
     round (real_of_int (LEVEL_THRESHOLDS ! (3 - 1) - LEVEL_THRESHOLDS ! (3 - 2)) * 1.2) \<and>
   LEVEL_THRESHOLDS ! (nat (getLevelForXp 1199) - 1) \<le> 1199 \<and>
   1199 < LEVEL_THRESHOLDS ! (nat 3 - 1) \<and>
   getLevelForXp 1199 \<le> getLevelForXp 1200"
proof -
  have v: "getLevelForXp 1199 = 2"
    unfolding getLevelForXp_def LEVEL_THRESHOLDS_def buildLevelThresholds_def by code_simp
  have g: "(3::nat) \<le> 3 \<and> (3::nat) < 100" by simp
  have l: "getLevelForXp 1199 < 3 \<and> (3::int) \<le> 100" by (simp only: v) simp
  have h1: "(0::int) \<le> 1199" and h2: "(1199::int) \<le> 1200" by simp_all
  note spec = getLevelForXp_spec [of 1199 1200]
  from spec g have c1: "LEVEL_THRESHOLDS ! 3 = LEVEL_THRESHOLDS ! (3 - 1) +
     round (real_of_int (LEVEL_THRESHOLDS ! (3 - 1) - LEVEL_THRESHOLDS ! (3 - 2)) * 1.2)"
    by blast
  from spec h1 have lv: "LEVEL_THRESHOLDS ! (nat (getLevelForXp 1199) - 1) \<le> 1199"
    by blast
  from spec h1 l have c2: "1199 < LEVEL_THRESHOLDS ! (nat 3 - 1)"
    by blast
  from spec h2 have mono: "getLevelForXp 1199 \<le> getLevelForXp 1200"
    by blast
  from h1 h2 g l c1 lv c2 mono show ?thesis by blast
qed


section \<open>Properties of the daily cap\<close>

text \<open>
  Claim C3. \<open>capDailyXp\<close> returns 0 for a proposed delta that is not positive and
  otherwise the smaller of the delta and the room left under the cap of 150 (never
  negative); a missing day total counts as 0. So \<open>capDailyXp(145, 10) = 5\<close>,
  \<open>capDailyXp(150, 10) = 0\<close>, \<open>capDailyXp(100, -5) = 0\<close>, and every result lies
  between 0 and \<open>max(0, 150 - currentDayXp)\<close>.
\<close>

theorem capDailyXp_spec:
  "capDailyXp (Some c) delta = (if delta \<le> 0 then 0 else min delta (max 0 (150 - c))) \<and>
   capDailyXp None delta = capDailyXp (Some 0) delta \<and>
   capDailyXp (Some 145) 10 = 5 \<and> capDailyXp (Some 150) 10 = 0 \<and> capDailyXp (Some 100) (- 5) = 0 \<and>
   0 \<le> capDailyXp (Some c) delta \<and> capDailyXp (Some c) delta \<le> max 0 (150 - c)"
  by (simp add: capDailyXp_def DAILY_XP_CAP_def Let_def)

section \<open>Properties of the streak evaluation\<close>

lemma streak_loop_foldl:
  "streak_loop d userId yesterday evalDate st =
     foldl (\<lambda>s day. streak_day (countCompletedCategories d userId day) s) st [evalDate..yesterday]"
proof (induction d userId yesterday evalDate st rule: streak_loop.induct)
  case (1 d userId yesterday evalDate st)
  show ?case
  proof (cases "evalDate \<le> yesterday")
    case True
    then have "[evalDate..yesterday] = evalDate # [evalDate + 1..yesterday]"
      by (rule upto_rec1)
    with True "1.IH" show ?thesis
      by (subst streak_loop.simps) (simp add: addDays_def)
  next
    case False
    then show ?thesis by (subst streak_loop.simps) simp
  qed
qed

lemma streak_loop_split:
  assumes "evalDate \<le> day" "day \<le> yesterday"
  shows "streak_loop d userId yesterday evalDate st =
           streak_loop d userId yesterday (day + 1)
             (streak_day (countCompletedCategories d userId day)
                (streak_loop d userId (day - 1) evalDate st))"
  using upto_split3 [OF assms] by (simp add: streak_loop_foldl)

lemma streak_day_cases:
  "streak_day completed (cs, ls, sh) =
     (if completed \<ge> 3 then
        (cs + 1, max ls (cs + 1), if (cs + 1) mod 7 = 0 \<and> sh = 0 then sh + 1 else sh)
      else if sh > 0 then (cs, max ls cs, sh - 1)
      else (0, ls, sh))"
  by (auto simp: streak_day_def STREAK_THRESHOLD_def SHIELD_STREAK_INTERVAL_def MAX_SHIELDS_def Let_def)

lemma evaluateStreakIfNeeded_backfill:
  assumes "users d userId = Some user" "streak_last_evaluated_date user = Some lastEval"
    "lastEval < today"
  shows "evaluateStreakIfNeeded d userId today =
     (case foldl (\<lambda>s day. streak_day (countCompletedCategories d userId day) s)
             (current_streak user, longest_streak user, streak_shields user)
             [lastEval + 1..today - 1] of
        (cs, ls, sh) \<Rightarrow>
          Inr (d\<lparr>users := (users d)(userId \<mapsto>
                 user\<lparr>current_streak := cs, longest_streak := ls, streak_shields := sh,
                      streak_last_evaluated_date := Some today\<rparr>)\<rparr>))"
  using assms
  by (simp add: evaluateStreakIfNeeded_def streak_loop_foldl addDays_def Let_def split: prod.splits)

lemma countCompletedCategories_no_row:
  "daily_logs d (userId, day) = None \<Longrightarrow> countCompletedCategories d userId day = 0"
  by (simp add: countCompletedCategories_def)

lemma ex_counts:
  "countCompletedCategories example_streak_db ''u1'' 1 = 4"
  "countCompletedCategories example_streak_db ''u1'' 2 = 1"
  "countCompletedCategories example_streak_db ''u1'' 3 = 5"
  "countCompletedCategories example_streak_db ''u1'' 4 = 0"
  by (simp_all add: countCompletedCategories_def example_streak_db_def new_daily_log_def)


text \<open>
  Claim C2. When the user's watermark \<open>lastEval\<close> is before today,
  \<open>evaluateStreakIfNeeded\<close> applies the daily step to the days
  \<open>lastEval + 1, ..., today - 1\<close> in ascending order, starting from the stored
  counters, and stores the result with the watermark set to today. The daily step: with
  at least 3 completed categories the streak grows by 1, and a shield is granted exactly
  when the new streak is a multiple of 7 and no shield is banked; otherwise a banked
  shield is consumed and the streak is kept; otherwise the streak is reset to 0; after
  each day the longest streak is the maximum of its old value and the current streak. A
  shield count of at most 1 stays at most 1. A backfill of three days with 4, 1 and 5
  completed categories, from a streak of 0 with no shield, ends with a current streak
  of 1 and a longest streak of 1.
\<close>

theorem evaluateStreakIfNeeded_backfill_spec:
  "(users d userId = Some user \<and> streak_last_evaluated_date user = Some lastEval \<and> lastEval < today \<longrightarrow>
      (\<exists>cs ls sh.
         foldl (\<lambda>s day. streak_day (countCompletedCategories d userId day) s)
           (current_streak user, longest_streak user, streak_shields user)
           [lastEval + 1..today - 1] = (cs, ls, sh) \<and>
         evaluateStreakIfNeeded d userId today =
           Inr (d\<lparr>users := (users d)(userId \<mapsto>
                  user\<lparr>current_streak := cs, longest_streak := ls, streak_shields := sh,
                       streak_last_evaluated_date := Some today\<rparr>)\<rparr>))) \<and>
   streak_day completed (c, l, s) =
     (if completed \<ge> 3 then
        (c + 1, max l (c + 1), if (c + 1) mod 7 = 0 \<and> s = 0 then s + 1 else s)
      else if s > 0 then (c, max l c, s - 1)
      else (0, max l 0, s)) \<and>
   (s \<le> 1 \<longrightarrow> snd (snd (streak_day completed (c, l, s))) \<le> 1) \<and>
   (users d userId = Some user \<and> streak_last_evaluated_date user = Some lastEval \<and>
    current_streak user = 0 \<and> longest_streak user \<le> 1 \<and> streak_shields user = 0 \<and>
    countCompletedCategories d userId (lastEval + 1) = 4 \<and>
    countCompletedCategories d userId (lastEval + 2) = 1 \<and>
    countCompletedCategories d userId (lastEval + 3) = 5 \<longrightarrow>
      evaluateStreakIfNeeded d userId (lastEval + 4) =
        Inr (d\<lparr>users := (users d)(userId \<mapsto>
               user\<lparr>current_streak := 1, longest_streak := 1, streak_shields := 0,
                    streak_last_evaluated_date := Some (lastEval + 4)\<rparr>)\<rparr>))"
proof -
  have loop: "users d userId = Some user \<and> streak_last_evaluated_date user = Some lastEval \<and> lastEval < today \<longrightarrow>
      (\<exists>cs ls sh.
         foldl (\<lambda>s day. streak_day (countCompletedCategories d userId day) s)
           (current_streak user, longest_streak user, streak_shields user)
           [lastEval + 1..today - 1] = (cs, ls, sh) \<and>
         evaluateStreakIfNeeded d userId today =
           Inr (d\<lparr>users := (users d)(userId \<mapsto>
                  user\<lparr>current_streak := cs, longest_streak := ls, streak_shields := sh,
                       streak_last_evaluated_date := Some today\<rparr>)\<rparr>))"
  proof (intro impI, elim conjE)
    assume a: "users d userId = Some user" "streak_last_evaluated_date user = Some lastEval"
      "lastEval < today"
    obtain cs ls sh where f: "foldl (\<lambda>s day. streak_day (countCompletedCategories d userId day) s)
           (current_streak user, longest_streak user, streak_shields user)
           [lastEval + 1..today - 1] = (cs, ls, sh)"
      by (metis prod_cases3)
    with evaluateStreakIfNeeded_backfill [OF a] show "\<exists>cs ls sh.
         foldl (\<lambda>s day. streak_day (countCompletedCategories d userId day) s)
           (current_streak user, longest_streak user, streak_shields user)
           [lastEval + 1..today - 1] = (cs, ls, sh) \<and>
         evaluateStreakIfNeeded d userId today =
           Inr (d\<lparr>users := (users d)(userId \<mapsto>
                  user\<lparr>current_streak := cs, longest_streak := ls, streak_shields := sh,
                       streak_last_evaluated_date := Some today\<rparr>)\<rparr>)"
      by simp
  qed
  have day: "streak_day completed (c, l, s) =
     (if completed \<ge> 3 then
        (c + 1, max l (c + 1), if (c + 1) mod 7 = 0 \<and> s = 0 then s + 1 else s)
      else if s > 0 then (c, max l c, s - 1)
      else (0, max l 0, s))"
    by (simp add: streak_day_cases)
  have cap: "s \<le> 1 \<longrightarrow> snd (snd (streak_day completed (c, l, s))) \<le> 1"
    by (simp add: streak_day_cases)
  have ex: "users d userId = Some user \<and> streak_last_evaluated_date user = Some lastEval \<and>
    current_streak user = 0 \<and> longest_streak user \<le> 1 \<and> streak_shields user = 0 \<and>
    countCompletedCategories d userId (lastEval + 1) = 4 \<and>
    countCompletedCategories d userId (lastEval + 2) = 1 \<and>
    countCompletedCategories d userId (lastEval + 3) = 5 \<longrightarrow>
      evaluateStreakIfNeeded d userId (lastEval + 4) =
        Inr (d\<lparr>users := (users d)(userId \<mapsto>
               user\<lparr>current_streak := 1, longest_streak := 1, streak_shields := 0,
                    streak_last_evaluated_date := Some (lastEval + 4)\<rparr>)\<rparr>)"
  proof (intro impI, elim conjE)
    assume a: "users d userId = Some user" "streak_last_evaluated_date user = Some lastEval"
      and st: "current_streak user = 0" "longest_streak user \<le> 1" "streak_shields user = 0"
      and cnt: "countCompletedCategories d userId (lastEval + 1) = 4"
        "countCompletedCategories d userId (lastEval + 2) = 1"
        "countCompletedCategories d userId (lastEval + 3) = 5"
    have days: "[lastEval + 1..lastEval + 4 - 1] = [lastEval + 1, lastEval + 2, lastEval + 3]"
      by (simp add: upto_rec1)
    have lt: "lastEval < lastEval + 4" by simp
    show "evaluateStreakIfNeeded d userId (lastEval + 4) =
        Inr (d\<lparr>users := (users d)(userId \<mapsto>
               user\<lparr>current_streak := 1, longest_streak := 1, streak_shields := 0,
                    streak_last_evaluated_date := Some (lastEval + 4)\<rparr>)\<rparr>)"
      unfolding evaluateStreakIfNeeded_backfill [OF a lt] days
      using st cnt by (simp add: streak_day_cases max_def)
  qed
  from loop day cap ex show ?thesis by (intro conjI)
qed

theorem evaluateStreakIfNeeded_backfill_spec_witness:
  "users example_streak_db ''u1'' = Some example_user \<and>
   streak_last_evaluated_date example_user = Some 0 \<and> (0::int) < 4 \<and>
   current_streak example_user = 0 \<and> longest_streak example_user \<le> 1 \<and>
   streak_shields example_user = 0 \<and> (0::nat) \<le> 1 \<and>
   countCompletedCategories example_streak_db ''u1'' (0 + 1) = 4 \<and>
   countCompletedCategories example_streak_db ''u1'' (0 + 2) = 1 \<and>
   countCompletedCategories example_streak_db ''u1'' (0 + 3) = 5 \<and>
   snd (snd (streak_day 4 (6, 6, 0))) \<le> 1 \<and>
   evaluateStreakIfNeeded example_streak_db ''u1'' (0 + 4) =
     Inr (example_streak_db\<lparr>users := (users example_streak_db)(''u1'' \<mapsto>
            example_user\<lparr>current_streak := 1, longest_streak := 1, streak_shields := 0,
                         streak_last_evaluated_date := Some (0 + 4)\<rparr>)\<rparr>)"
proof -
  have u: "users example_streak_db ''u1'' = Some example_user"
    by (simp add: example_streak_db_def)
  have w: "streak_last_evaluated_date example_user = Some 0"
    "current_streak example_user = 0" "longest_streak example_user \<le> 1"
    "streak_shields example_user = 0"
    by (simp_all add: example_user_def)
  have cnt: "countCompletedCategories example_streak_db ''u1'' (0 + 1) = 4"
    "countCompletedCategories example_streak_db ''u1'' (0 + 2) = 1"
    "countCompletedCategories example_streak_db ''u1'' (0 + 3) = 5"
    by (simp_all add: countCompletedCategories_def example_streak_db_def new_daily_log_def)
  note spec = evaluateStreakIfNeeded_backfill_spec
    [of example_streak_db "''u1''" example_user 0 4 4 6 6 0]
  from spec have cap: "(0::nat) \<le> 1 \<longrightarrow> snd (snd (streak_day 4 (6, 6, 0))) \<le> 1"
    by blast
  from spec u w cnt have "evaluateStreakIfNeeded example_streak_db ''u1'' (0 + 4) =
     Inr (example_streak_db\<lparr>users := (users example_streak_db)(''u1'' \<mapsto>
            example_user\<lparr>current_streak := 1, longest_streak := 1, streak_shields := 0,
                         streak_last_evaluated_date := Some (0 + 4)\<rparr>)\<rparr>)"
    by blast
  with u w cnt cap show ?thesis by simp
qed


text \<open>
  Claim C10. For a user and a date without a ledger row, \<open>countCompletedCategories\<close>
  returns 0. In the backfill such a day is a missed day: wherever it lies in the evaluated
  range, the loop's state after it is the state before it with a banked shield consumed
  and the streak kept, or, with no shield, with the streak reset to 0. In particular a
  backfill of that single day stores exactly this.
\<close>

theorem missed_day_spec:
  "(daily_logs d (userId, day) = None \<longrightarrow> countCompletedCategories d userId day = 0) \<and>
   (daily_logs d (userId, day) = None \<and> evalDate \<le> day \<and> day \<le> yesterday \<longrightarrow>
      streak_loop d userId yesterday evalDate st =
        streak_loop d userId yesterday (day + 1)
          (case streak_loop d userId (day - 1) evalDate st of
             (c, l, s) \<Rightarrow> if s > 0 then (c, max l c, s - 1) else (0, l, s))) \<and>
   (daily_logs d (userId, day) = None \<and> users d userId = Some user \<and>
    streak_last_evaluated_date user = Some (day - 1) \<longrightarrow>
      evaluateStreakIfNeeded d userId (day + 1) =
        Inr (d\<lparr>users := (users d)(userId \<mapsto>
               user\<lparr>current_streak := (if streak_shields user > 0 then current_streak user else 0),
                    longest_streak := (if streak_shields user > 0
                                       then max (longest_streak user) (current_streak user)
                                       else longest_streak user),
                    streak_shields := (if streak_shields user > 0 then streak_shields user - 1
                                       else streak_shields user),
                    streak_last_evaluated_date := Some (day + 1)\<rparr>)\<rparr>))"
proof -
  have zero: "daily_logs d (userId, day) = None \<longrightarrow> countCompletedCategories d userId day = 0"
    by (simp add: countCompletedCategories_no_row)
  have miss: "streak_day 0 x = (case x of (c, l, s) \<Rightarrow> if s > 0 then (c, max l c, s - 1) else (0, l, s))"
    for x by (cases x) (simp add: streak_day_cases)
  have loop: "daily_logs d (userId, day) = None \<and> evalDate \<le> day \<and> day \<le> yesterday \<longrightarrow>
      streak_loop d userId yesterday evalDate st =
        streak_loop d userId yesterday (day + 1)
          (case streak_loop d userId (day - 1) evalDate st of
             (c, l, s) \<Rightarrow> if s > 0 then (c, max l c, s - 1) else (0, l, s))"
  proof (intro impI, elim conjE)
    assume a: "daily_logs d (userId, day) = None" and b: "evalDate \<le> day" "day \<le> yesterday"
    show "streak_loop d userId yesterday evalDate st =
        streak_loop d userId yesterday (day + 1)
          (case streak_loop d userId (day - 1) evalDate st of
             (c, l, s) \<Rightarrow> if s > 0 then (c, max l c, s - 1) else (0, l, s))"
      unfolding streak_loop_split [OF b] countCompletedCategories_no_row [OF a] miss ..
  qed
  have single: "daily_logs d (userId, day) = None \<and> users d userId = Some user \<and>
    streak_last_evaluated_date user = Some (day - 1) \<longrightarrow>
      evaluateStreakIfNeeded d userId (day + 1) =
        Inr (d\<lparr>users := (users d)(userId \<mapsto>
               user\<lparr>current_streak := (if streak_shields user > 0 then current_streak user else 0),
                    longest_streak := (if streak_shields user > 0
                                       then max (longest_streak user) (current_streak user)
                                       else longest_streak user),
                    streak_shields := (if streak_shields user > 0 then streak_shields user - 1
                                       else streak_shields user),
                    streak_last_evaluated_date := Some (day + 1)\<rparr>)\<rparr>)"
  proof (intro impI, elim conjE)
    assume a: "daily_logs d (userId, day) = None"
      and u: "users d userId = Some user" "streak_last_evaluated_date user = Some (day - 1)"
    have lt: "day - 1 < day + 1" by simp
    have days: "[day - 1 + 1..day + 1 - 1] = [day]" by simp
    show "evaluateStreakIfNeeded d userId (day + 1) =
        Inr (d\<lparr>users := (users d)(userId \<mapsto>
               user\<lparr>current_streak := (if streak_shields user > 0 then current_streak user else 0),
                    longest_streak := (if streak_shields user > 0
                                       then max (longest_streak user) (current_streak user)
                                       else longest_streak user),
                    streak_shields := (if streak_shields user > 0 then streak_shields user - 1
                                       else streak_shields user),
                    streak_last_evaluated_date := Some (day + 1)\<rparr>)\<rparr>)"
      unfolding evaluateStreakIfNeeded_backfill [OF u lt] days
      by (simp add: countCompletedCategories_no_row [OF a] streak_day_cases)
  qed
  from zero loop single show ?thesis by (intro conjI)
qed

theorem missed_day_spec_witness:
  "daily_logs example_shield_db (''u1'', 4) = None \<and> (1::int) \<le> 4 \<and> (4::int) \<le> 4 \<and>
   users example_shield_db ''u1'' =
     Some (example_user\<lparr>current_streak := 7, longest_streak := 9, streak_shields := 1,
                        streak_last_evaluated_date := Some 3\<rparr>) \<and>
   streak_last_evaluated_date
     (example_user\<lparr>current_streak := 7, longest_streak := 9, streak_shields := 1,
                   streak_last_evaluated_date := Some 3\<rparr>) = Some (4 - 1) \<and>
   countCompletedCategories example_shield_db ''u1'' 4 = 0 \<and>
   streak_loop example_shield_db ''u1'' 4 1 (0, 0, 0) =
     streak_loop example_shield_db ''u1'' 4 (4 + 1)
       (case streak_loop example_shield_db ''u1'' (4 - 1) 1 (0, 0, 0) of
          (c, l, s) \<Rightarrow> if s > 0 then (c, max l c, s - 1) else (0, l, s)) \<and>
   evaluateStreakIfNeeded example_shield_db ''u1'' (4 + 1) =
     Inr (example_shield_db\<lparr>users := (users example_shield_db)(''u1'' \<mapsto>
            example_user\<lparr>current_streak := 7, longest_streak := 9, streak_shields := 0,
                         streak_last_evaluated_date := Some (4 + 1)\<rparr>)\<rparr>)"
proof -
  let ?u = "example_user\<lparr>current_streak := 7, longest_streak := 9, streak_shields := 1,
                        streak_last_evaluated_date := Some 3\<rparr>"
  have a: "daily_logs example_shield_db (''u1'', 4) = None"
    by (simp add: example_shield_db_def example_streak_db_def)
  have b: "(1::int) \<le> 4 \<and> (4::int) \<le> 4" by simp
  have u: "users example_shield_db ''u1'' = Some ?u"
    by (simp add: example_shield_db_def)
  have w: "streak_last_evaluated_date ?u = Some (4 - 1)" by simp
  note spec = missed_day_spec [of example_shield_db "''u1''" 4 1 4 "(0, 0, 0)" ?u]
  from spec a have c0: "countCompletedCategories example_shield_db ''u1'' 4 = 0"
    by blast
  from spec a b have c1: "streak_loop example_shield_db ''u1'' 4 1 (0, 0, 0) =
     streak_loop example_shield_db ''u1'' 4 (4 + 1)
       (case streak_loop example_shield_db ''u1'' (4 - 1) 1 (0, 0, 0) of
          (c, l, s) \<Rightarrow> if s > 0 then (c, max l c, s - 1) else (0, l, s))"
    by blast
  from spec a u w have c2: "evaluateStreakIfNeeded example_shield_db ''u1'' (4 + 1) =
        Inr (example_shield_db\<lparr>users := (users example_shield_db)(''u1'' \<mapsto>
               ?u\<lparr>current_streak := (if streak_shields ?u > 0 then current_streak ?u else 0),
                    longest_streak := (if streak_shields ?u > 0
                                       then max (longest_streak ?u) (current_streak ?u)
                                       else longest_streak ?u),
                    streak_shields := (if streak_shields ?u > 0 then streak_shields ?u - 1
                                       else streak_shields ?u),
                    streak_last_evaluated_date := Some (4 + 1)\<rparr>)\<rparr>)"
    by blast
  from a b u w c0 c1 c2 show ?thesis by simp
qed

section \<open>Properties of the habit updates\<close>

lemma applyUpdate_eq:
  "applyUpdate d userId today now existing fw x =
     (case users d userId of
        None \<Rightarrow> Inl InternalError
      | Some user \<Rightarrow>
          Inr (d\<lparr>daily_logs := (daily_logs d)((userId, today) \<mapsto> written_row now existing fw x),
                 users := (if x > 0
                           then (users d)(userId \<mapsto> user\<lparr>xp_total := xp_total user + x,
                                                        level := getLevelForXp (xp_total user + x)\<rparr>)
                           else users d)\<rparr>,
               \<lparr>xpAwarded = x,
                xpTotal = (if x > 0 then xp_total user + x else xp_total user),
                resp_level = (if x > 0 then getLevelForXp (xp_total user + x) else level user),
                levelUp = (if x > 0 \<and> getLevelForXp (xp_total user + x) > level user
                           then Some (Some (level user), Some (getLevelForXp (xp_total user + x)))
                           else None),
                xpEarned = xp_earned (written_row now existing fw x)\<rparr>))"
  by (auto simp: applyUpdate_def applyXpToUser_def Let_def split: option.splits)

lemma capDailyXp_bounds:
  "0 \<le> capDailyXp (Some c) raw" "capDailyXp (Some c) raw \<le> max 0 (DAILY_XP_CAP - c)"
  by (auto simp: capDailyXp_def Let_def)

lemma capDailyXp_zero: "capDailyXp c 0 = 0"
  by (simp add: capDailyXp_def)

lemma written_row_xp_earned:
  assumes "\<And>r. xp_earned (fw r) = xp_earned r" "0 \<le> x"
  shows "xp_earned (written_row now existing fw x) =
           (case existing of None \<Rightarrow> 0 | Some r \<Rightarrow> xp_earned r) + x"
  using assms by (cases existing) (auto simp: written_row_def new_daily_log_def Let_def)

lemma applyUpdate_InrD:
  assumes "applyUpdate d userId today now existing fw x = Inr (d', resp)"
  shows "daily_logs d' = (daily_logs d)((userId, today) \<mapsto> written_row now existing fw x)"
    and "xpAwarded resp = x" and "habits_config d' = habits_config d"
  using assms by (auto simp: applyUpdate_eq split: option.splits)

lemma applyUpdate_step_ok:
  assumes "applyUpdate d userId today now (daily_logs d (userId, today)) fw
             (capDailyXp (Some (case daily_logs d (userId, today) of None \<Rightarrow> 0 | Some r \<Rightarrow> xp_earned r)) raw)
           = Inr (d', resp)"
    and "\<And>r. xp_earned (fw r) = xp_earned r"
  shows "step_ok d userId today d' resp"
proof -
  let ?c = "case daily_logs d (userId, today) of None \<Rightarrow> 0 | Some r \<Rightarrow> xp_earned r"
  let ?x = "capDailyXp (Some ?c) raw"
  note D = applyUpdate_InrD [OF assms(1)]
  have x0: "0 \<le> ?x" by (rule capDailyXp_bounds(1))
  have "xp_earned (written_row now (daily_logs d (userId, today)) fw ?x) = ?c + ?x"
    by (rule written_row_xp_earned [OF assms(2) x0])
  with D(1,2) x0 capDailyXp_bounds(2) [of ?c raw] show ?thesis
    by (simp add: step_ok_def day_xp_def)
qed

lemma write_food_xp_earned: "xp_earned (write_food h v a r) = xp_earned r"
  by (cases h) simp_all

lemma sleep_fields_xp_earned: "xp_earned (sleep_fields c r) = xp_earned r"
  by (simp add: sleep_fields_def Let_def)

lemma steps_fields_xp_earned: "xp_earned (steps_fields src c r) = xp_earned r"
  by (simp add: steps_fields_def Let_def)

lemma handleMovementUpdate_step:
  assumes "handleMovementUpdate d userId today now v = Inr (d', resp)"
  shows "step_ok d userId today d' resp"
  using assms unfolding handleMovementUpdate_def Let_def
  by (auto split: if_splits elim!: applyUpdate_step_ok)

lemma handleHydrationUpdate_step:
  assumes "handleHydrationUpdate d userId today now v = Inr (d', resp)"
  shows "step_ok d userId today d' resp"
  using assms unfolding handleHydrationUpdate_def Let_def
  by (cases v) (auto split: if_splits elim!: applyUpdate_step_ok)

lemma handleSleepUpdate_step:
  assumes "handleSleepUpdate d userId today now s e = Inr (d', resp)"
  shows "step_ok d userId today d' resp"
  using assms unfolding handleSleepUpdate_def Let_def
  by (auto split: if_splits elim!: applyUpdate_step_ok simp: sleep_fields_xp_earned)

lemma handleFoodUpdate_step:
  assumes "handleFoodUpdate d userId today now i c = Inr (d', resp)"
  shows "step_ok d userId today d' resp"
proof (cases "case i of None \<Rightarrow> None | Some i \<Rightarrow> FOOD_HABITS i")
  case None
  with assms show ?thesis by (simp add: handleFoodUpdate_def)
next
  case (Some h)
  with assms show ?thesis unfolding handleFoodUpdate_def Let_def
    by (auto split: if_splits elim!: applyUpdate_step_ok simp: write_food_xp_earned)
qed

lemma handleStepsUpdate_step:
  assumes "handleStepsUpdate d userId today now dateNow v src = Inr (d', resp)"
  shows "step_ok d userId today d' resp"
  using assms unfolding handleStepsUpdate_def Let_def
  by (cases v) (auto split: if_splits elim!: applyUpdate_step_ok simp: steps_fields_xp_earned)

lemma patch_today_step:
  assumes "patch_today d userId today now dateNow req = Inr (d', resp)"
  shows "step_ok d userId today d' resp"
  using assms
  by (cases req)
    (simp_all add: handleStepsUpdate_step handleMovementUpdate_step handleHydrationUpdate_step
      handleSleepUpdate_step handleFoodUpdate_step)

lemma serve_capped:
  "day_xp d u day \<le> DAILY_XP_CAP \<Longrightarrow> day_xp (serve d reqs) u day \<le> DAILY_XP_CAP"
proof (induction reqs arbitrary: d)
  case Nil
  then show ?case by simp
next
  case (Cons rq reqs)
  obtain userId today now dateNow r where rq: "rq = (userId, today, now, dateNow, r)"
    by (cases rq) auto
  show ?case
  proof (cases "patch_today d userId today now dateNow r")
    case (Inl e)
    with Cons rq show ?thesis by simp
  next
    case (Inr p)
    obtain d' resp where p: "p = (d', resp)" by (cases p) auto
    from Inr p have ok: "step_ok d userId today d' resp" by (simp add: patch_today_step)
    have "day_xp d' u day \<le> DAILY_XP_CAP"
    proof (cases "(u, day) = (userId, today)")
      case True
      with ok Cons.prems show ?thesis by (auto simp: step_ok_def)
    next
      case False
      with ok have "daily_logs d' (u, day) = daily_logs d (u, day)"
        by (simp add: step_ok_def)
      with Cons.prems show ?thesis by (simp add: day_xp_def)
    qed
    from Cons.IH [OF this] Inr p rq show ?thesis by simp
  qed
qed

lemma applyUpdate_repeat:
  assumes "applyUpdate d userId today now existing fw x = Inr (d1, resp1)"
    and "(fw' (written_row now existing fw x))\<lparr>updated_at := now'\<rparr> =
         (written_row now existing fw x)\<lparr>updated_at := now'\<rparr>"
  shows "applyUpdate d1 userId today now' (Some (written_row now existing fw x)) fw' 0 =
           Inr (d1\<lparr>daily_logs := (daily_logs d1)((userId, today) \<mapsto>
                    (written_row now existing fw x)\<lparr>updated_at := now'\<rparr>)\<rparr>,
                resp1\<lparr>xpAwarded := 0, levelUp := None\<rparr>)"
proof -
  let ?W = "written_row now existing fw x"
  from assms(1) obtain user where u: "users d userId = Some user"
    by (auto simp: applyUpdate_eq split: option.splits)
  have w0: "written_row now' (Some ?W) fw' 0 = ?W\<lparr>updated_at := now'\<rparr>"
    using assms(2) by (simp add: written_row_def [of now' "Some ?W"] Let_def)
  from assms(1) u show ?thesis
    by (cases "x > 0") (auto simp: applyUpdate_eq w0)
qed

lemma movement_rule_repeat:
  "movement_rule (Some (written_row now ex
       (\<lambda>r. r\<lparr>movement_done := mv_processedValue (movement_rule ex v),
               movement_xp_awarded := mv_newXpAwarded (movement_rule ex v)\<rparr>) x)) v =
     (movement_rule ex v)\<lparr>mv_rawXpDelta := 0\<rparr>"
  by (cases ex) (simp_all add: movement_rule_def written_row_def Let_def new_daily_log_def)

lemma handleMovementUpdate_repeat:
  assumes "handleMovementUpdate d userId today now v = Inr (d1, resp1)"
  shows "\<exists>row1. daily_logs d1 (userId, today) = Some row1 \<and>
     handleMovementUpdate d1 userId today now' v =
       Inr (d1\<lparr>daily_logs := (daily_logs d1)((userId, today) \<mapsto> row1\<lparr>updated_at := now'\<rparr>)\<rparr>,
            resp1\<lparr>xpAwarded := 0, levelUp := None\<rparr>)"
proof -
  let ?ex = "daily_logs d (userId, today)"
  let ?c = "movement_rule ?ex v"
  let ?fw = "\<lambda>r. r\<lparr>movement_done := mv_processedValue ?c, movement_xp_awarded := mv_newXpAwarded ?c\<rparr>"
  let ?x = "capDailyXp (Some (case ?ex of None \<Rightarrow> 0 | Some r \<Rightarrow> xp_earned r)) (mv_rawXpDelta ?c)"
  let ?W = "written_row now ?ex ?fw ?x"
  from assms have ok: "is_flag_value v"
    and A: "applyUpdate d userId today now ?ex ?fw ?x = Inr (d1, resp1)"
    by (simp_all add: handleMovementUpdate_def Let_def split: if_splits)
  have D: "daily_logs d1 (userId, today) = Some ?W"
    using applyUpdate_InrD(1) [OF A] by simp
  have fx: "(?fw ?W)\<lparr>updated_at := now'\<rparr> = ?W\<lparr>updated_at := now'\<rparr>"
    by (simp add: written_row_def Let_def)
  from applyUpdate_repeat [where fw' = ?fw and now' = now', OF A fx] show ?thesis
    by (simp add: handleMovementUpdate_def Let_def ok D movement_rule_repeat capDailyXp_zero)
qed


lemma hydration_rule_repeat:
  "hydration_rule (Some (written_row now ex
       (\<lambda>r. r\<lparr>hydration_glasses := Some g,
               hydration_xp_glasses := newXpGlasses (hydration_rule ex g goal),
               hydration_goal_xp_awarded := newGoalAwarded (hydration_rule ex g goal)\<rparr>) x)) g goal =
     (hydration_rule ex g goal)\<lparr>glassXpDelta := 0, goalXpDelta := 0\<rparr>"
  by (cases ex) (simp_all add: hydration_rule_def written_row_def Let_def new_daily_log_def)

lemma handleHydrationUpdate_repeat:
  assumes "handleHydrationUpdate d userId today now v = Inr (d1, resp1)"
  shows "\<exists>row1. daily_logs d1 (userId, today) = Some row1 \<and>
     handleHydrationUpdate d1 userId today now' v =
       Inr (d1\<lparr>daily_logs := (daily_logs d1)((userId, today) \<mapsto> row1\<lparr>updated_at := now'\<rparr>)\<rparr>,
            resp1\<lparr>xpAwarded := 0, levelUp := None\<rparr>)"
proof -
  from assms obtain g where v: "v = Some g" and g0: "\<not> g < 0"
    by (cases v) (auto simp: handleHydrationUpdate_def split: if_splits)
  let ?goal = "case habits_config d userId of None \<Rightarrow> 8 | Some g \<Rightarrow> cfg_hydration_glasses g"
  let ?ex = "daily_logs d (userId, today)"
  let ?c = "hydration_rule ?ex g ?goal"
  let ?fw = "\<lambda>r. r\<lparr>hydration_glasses := Some g, hydration_xp_glasses := newXpGlasses ?c,
                      hydration_goal_xp_awarded := newGoalAwarded ?c\<rparr>"
  let ?x = "capDailyXp (Some (case ?ex of None \<Rightarrow> 0 | Some r \<Rightarrow> xp_earned r))
              (glassXpDelta ?c + goalXpDelta ?c)"
  let ?W = "written_row now ?ex ?fw ?x"
  from assms v g0 have A: "applyUpdate d userId today now ?ex ?fw ?x = Inr (d1, resp1)"
    by (simp add: handleHydrationUpdate_def Let_def)
  have D: "daily_logs d1 (userId, today) = Some ?W"
    using applyUpdate_InrD(1) [OF A] by simp
  have C: "habits_config d1 = habits_config d"
    by (rule applyUpdate_InrD(3) [OF A])
  have fx: "(?fw ?W)\<lparr>updated_at := now'\<rparr> = ?W\<lparr>updated_at := now'\<rparr>"
    by (simp add: written_row_def Let_def)
  from applyUpdate_repeat [where fw' = ?fw and now' = now', OF A fx] show ?thesis
    by (simp add: handleHydrationUpdate_def Let_def v g0 D C hydration_rule_repeat capDailyXp_zero)
qed

lemma food_rule_repeat:
  "food_rule (Some (written_row now ex
       (write_food h (fd_processedValue (food_rule ex h chk)) (fd_newXpAwarded (food_rule ex h chk))) x))
     h chk =
     (food_rule ex h chk)\<lparr>fd_rawXpDelta := 0\<rparr>"
  by (cases ex; cases h) (simp_all add: food_rule_def written_row_def Let_def new_daily_log_def)

lemma write_food_repeat:
  "(write_food h p a (written_row now ex (write_food h p a) x))\<lparr>updated_at := now'\<rparr> =
     (written_row now ex (write_food h p a) x)\<lparr>updated_at := now'\<rparr>"
  by (cases h) (simp_all add: written_row_def Let_def)

lemma handleFoodUpdate_repeat:
  assumes "handleFoodUpdate d userId today now i chk = Inr (d1, resp1)"
  shows "\<exists>row1. daily_logs d1 (userId, today) = Some row1 \<and>
     handleFoodUpdate d1 userId today now' i chk =
       Inr (d1\<lparr>daily_logs := (daily_logs d1)((userId, today) \<mapsto> row1\<lparr>updated_at := now'\<rparr>)\<rparr>,
            resp1\<lparr>xpAwarded := 0, levelUp := None\<rparr>)"
proof -
  from assms obtain h where h: "(case i of None \<Rightarrow> None | Some i \<Rightarrow> FOOD_HABITS i) = Some h"
    by (cases "case i of None \<Rightarrow> None | Some i \<Rightarrow> FOOD_HABITS i") (auto simp: handleFoodUpdate_def)
  let ?ex = "daily_logs d (userId, today)"
  let ?c = "food_rule ?ex h chk"
  let ?fw = "write_food h (fd_processedValue ?c) (fd_newXpAwarded ?c)"
  let ?x = "capDailyXp (Some (case ?ex of None \<Rightarrow> 0 | Some r \<Rightarrow> xp_earned r)) (fd_rawXpDelta ?c)"
  let ?W = "written_row now ?ex ?fw ?x"
  from assms h have ok: "is_flag_value chk"
    and A: "applyUpdate d userId today now ?ex ?fw ?x = Inr (d1, resp1)"
    by (simp_all add: handleFoodUpdate_def Let_def split: if_splits)
  have D: "daily_logs d1 (userId, today) = Some ?W"
    using applyUpdate_InrD(1) [OF A] by simp
  note fx = write_food_repeat [where h = h and p = "fd_processedValue ?c"
      and a = "fd_newXpAwarded ?c" and now = now and ex = ?ex and x = ?x and now' = now']
  from applyUpdate_repeat [where fw' = ?fw and now' = now', OF A fx] show ?thesis
    by (simp add: handleFoodUpdate_def Let_def h ok D food_rule_repeat capDailyXp_zero)
qed


lemma effective_idem:
  "effective s (if effective s old \<noteq> None then effective s old else old) = effective s old"
  by (simp add: effective_def truthy_def split: option.splits)

lemma flag_idem:
  "(if c \<and> (if c \<and> p = 0 then 1 else p) = 0 then 1 else (if c \<and> p = 0 then 1 else p)) =
     (if c \<and> p = 0 then (1::int) else p)"
  by simp

lemma raw_idem:
  "(if (if c \<and> p = 0 then 1 else p) = (1::int) \<and> (if c \<and> p = 0 then 1 else p) = 0 then a else b) = b"
  by auto

lemma sleep_rule_repeat:
  "sleep_rule (Some (written_row now ex (sleep_fields (sleep_rule ex s e)) x)) s e =
     (sleep_rule ex s e)\<lparr>sl_rawXpDelta := 0\<rparr>"
proof -
  let ?os = "case ex of None \<Rightarrow> None | Some r \<Rightarrow> sleep_start r"
  let ?oe = "case ex of None \<Rightarrow> None | Some r \<Rightarrow> sleep_end r"
  let ?W = "written_row now ex (sleep_fields (sleep_rule ex s e)) x"
  have s1: "sleep_start ?W = (if effective s ?os \<noteq> None then effective s ?os else ?os)"
    by (cases ex) (simp_all add: sleep_rule_def sleep_fields_def written_row_def Let_def new_daily_log_def)
  have e1: "sleep_end ?W = (if effective e ?oe \<noteq> None then effective e ?oe else ?oe)"
    by (cases ex) (simp_all add: sleep_rule_def sleep_fields_def written_row_def Let_def new_daily_log_def)
  have es: "effective s (sleep_start ?W) = effective s ?os"
    unfolding s1 by (rule effective_idem)
  have ee: "effective e (sleep_end ?W) = effective e ?oe"
    unfolding e1 by (rule effective_idem)
  have f1: "sleep_xp_start_awarded ?W = sl_newStartAwarded (sleep_rule ex s e)"
    and f2: "sleep_xp_end_awarded ?W = sl_newEndAwarded (sleep_rule ex s e)"
    and f3: "sleep_goal_xp_awarded ?W = sl_newGoalAwarded (sleep_rule ex s e)"
    by (simp_all add: sleep_fields_def written_row_def Let_def)
  show ?thesis
    unfolding sleep_rule_def [of "Some ?W"] option.case es ee f1 f2 f3
    by (simp add: sleep_rule_def Let_def flag_idem raw_idem split del: if_split cong: if_cong)
qed

lemma sleep_fields_raw: "sleep_fields (c\<lparr>sl_rawXpDelta := z\<rparr>) = sleep_fields c"
  by (simp add: sleep_fields_def fun_eq_iff Let_def)

lemma sleep_fields_repeat:
  "(sleep_fields c (written_row now ex (sleep_fields c) x))\<lparr>updated_at := now'\<rparr> =
     (written_row now ex (sleep_fields c) x)\<lparr>updated_at := now'\<rparr>"
  by (simp add: sleep_fields_def written_row_def Let_def)

lemma handleSleepUpdate_repeat:
  assumes "handleSleepUpdate d userId today now s e = Inr (d1, resp1)"
  shows "\<exists>row1. daily_logs d1 (userId, today) = Some row1 \<and>
     handleSleepUpdate d1 userId today now' s e =
       Inr (d1\<lparr>daily_logs := (daily_logs d1)((userId, today) \<mapsto> row1\<lparr>updated_at := now'\<rparr>)\<rparr>,
            resp1\<lparr>xpAwarded := 0, levelUp := None\<rparr>)"
proof -
  let ?ex = "daily_logs d (userId, today)"
  let ?c = "sleep_rule ?ex s e"
  let ?fw = "sleep_fields ?c"
  let ?x = "capDailyXp (Some (case ?ex of None \<Rightarrow> 0 | Some r \<Rightarrow> xp_earned r)) (sl_rawXpDelta ?c)"
  let ?W = "written_row now ?ex ?fw ?x"
  from assms have ok: "\<not> (\<not> truthy s \<and> \<not> truthy e)" "\<not> bad_time s" "\<not> bad_time e"
    and A: "applyUpdate d userId today now ?ex ?fw ?x = Inr (d1, resp1)"
    by (simp_all add: handleSleepUpdate_def Let_def split: if_splits)
  have D: "daily_logs d1 (userId, today) = Some ?W"
    using applyUpdate_InrD(1) [OF A] by simp
  note fx = sleep_fields_repeat [where c = ?c and now = now and ex = ?ex and x = ?x and now' = now']
  from applyUpdate_repeat [where fw' = ?fw and now' = now', OF A fx] ok show ?thesis
    by (simp add: handleSleepUpdate_def Let_def D sleep_rule_repeat sleep_fields_raw capDailyXp_zero)
qed

lemma steps_rule_repeat:
  "steps_rule (Some (written_row now ex (steps_fields src (steps_rule ex src v goal now dn)) x))
       src v goal now' dn' =
     (steps_rule ex src v goal now dn)\<lparr>sc_bonus := False, sc_rawXpDelta := 0\<rparr>"
proof -
  let ?c = "steps_rule ex src v goal now dn"
  let ?W = "written_row now ex (steps_fields src ?c) x"
  have m1: "steps_manual ?W = newManual ?c"
    by (cases ex) (simp_all add: steps_rule_def steps_fields_def written_row_def Let_def new_daily_log_def)
  have g1: "steps_google_fit ?W = newGoogleFit ?c"
    by (cases ex) (simp_all add: steps_rule_def steps_fields_def written_row_def Let_def new_daily_log_def)
  have f1: "steps_goal_xp_awarded ?W = newGoalXpAwarded ?c"
    and l1: "steps_last_bonus_at ?W = newLastBonusAt ?c"
    by (simp_all add: steps_fields_def written_row_def Let_def)
  show ?thesis
    unfolding steps_rule_def [of "Some ?W"] option.case m1 g1 f1 l1
    by (simp add: steps_rule_def Let_def flag_idem raw_idem STEP_BONUS_INCREMENT_def
        split del: if_split cong: if_cong conj_cong) auto
qed

lemma steps_fields_raw:
  "steps_fields src (c\<lparr>sc_bonus := b, sc_rawXpDelta := z\<rparr>) = steps_fields src c"
  by (simp add: steps_fields_def fun_eq_iff Let_def)

lemma steps_fields_repeat:
  "(steps_fields src c (written_row now ex (steps_fields src c) x))\<lparr>updated_at := now'\<rparr> =
     (written_row now ex (steps_fields src c) x)\<lparr>updated_at := now'\<rparr>"
  by (simp add: steps_fields_def written_row_def Let_def)

lemma handleStepsUpdate_repeat:
  assumes "handleStepsUpdate d userId today now dn v src = Inr (d1, resp1)"
  shows "\<exists>row1. daily_logs d1 (userId, today) = Some row1 \<and>
     handleStepsUpdate d1 userId today now' dn' v src =
       Inr (d1\<lparr>daily_logs := (daily_logs d1)((userId, today) \<mapsto> row1\<lparr>updated_at := now'\<rparr>)\<rparr>,
            resp1\<lparr>xpAwarded := 0, levelUp := None\<rparr>)"
proof -
  let ?src = "if truthy src then (case src of None \<Rightarrow> ''manual'' | Some s \<Rightarrow> s) else ''manual''"
  from assms have s1: "\<not> (?src \<noteq> ''manual'' \<and> ?src \<noteq> ''google_fit'')"
    by (auto simp: handleStepsUpdate_def Let_def split: if_splits)
  with assms obtain sv where v: "v = Some sv"
    by (cases v) (auto simp: handleStepsUpdate_def Let_def split: if_splits)
  let ?goal = "case habits_config d userId of None \<Rightarrow> 10000 | Some g \<Rightarrow> cfg_daily_steps g"
  let ?ex = "daily_logs d (userId, today)"
  let ?c = "steps_rule ?ex ?src sv ?goal now dn"
  let ?fw = "steps_fields ?src ?c"
  let ?x = "capDailyXp (Some (case ?ex of None \<Rightarrow> 0 | Some r \<Rightarrow> xp_earned r)) (sc_rawXpDelta ?c)"
  let ?W = "written_row now ?ex ?fw ?x"
  from assms s1 v have ok: "\<not> sv < 0" "\<not> (?src = ''manual'' \<and> sv > MAX_MANUAL_STEPS)"
    and A: "applyUpdate d userId today now ?ex ?fw ?x = Inr (d1, resp1)"
    by (simp_all add: handleStepsUpdate_def Let_def split: if_splits)
  have D: "daily_logs d1 (userId, today) = Some ?W"
    using applyUpdate_InrD(1) [OF A] by simp
  have C: "habits_config d1 = habits_config d"
    by (rule applyUpdate_InrD(3) [OF A])
  note fx = steps_fields_repeat [where src = ?src and c = ?c and now = now and ex = ?ex
      and x = ?x and now' = now']
  from applyUpdate_repeat [where fw' = ?fw and now' = now', OF A fx] s1 ok show ?thesis
    unfolding handleStepsUpdate_def [of d1] Let_def v D C option.case steps_rule_repeat
    by (simp add: steps_fields_raw capDailyXp_zero)
qed

lemma patch_today_repeat:
  assumes "patch_today d userId today now dn req = Inr (d1, resp1)"
  shows "\<exists>row1. daily_logs d1 (userId, today) = Some row1 \<and>
     patch_today d1 userId today now' dn' req =
       Inr (d1\<lparr>daily_logs := (daily_logs d1)((userId, today) \<mapsto> row1\<lparr>updated_at := now'\<rparr>)\<rparr>,
            resp1\<lparr>xpAwarded := 0, levelUp := None\<rparr>)"
proof (cases req)
  case (StepsReq v src)
  with assms have "handleStepsUpdate d userId today now dn v src = Inr (d1, resp1)" by simp
  from handleStepsUpdate_repeat [OF this, of now' dn'] StepsReq show ?thesis by simp
next
  case (MovementReq v)
  with assms have "handleMovementUpdate d userId today now v = Inr (d1, resp1)" by simp
  from handleMovementUpdate_repeat [OF this, of now'] MovementReq show ?thesis by simp
next
  case (HydrationReq v)
  with assms have "handleHydrationUpdate d userId today now v = Inr (d1, resp1)" by simp
  from handleHydrationUpdate_repeat [OF this, of now'] HydrationReq show ?thesis by simp
next
  case (SleepReq s e)
  with assms have "handleSleepUpdate d userId today now s e = Inr (d1, resp1)" by simp
  from handleSleepUpdate_repeat [OF this, of now'] SleepReq show ?thesis by simp
next
  case (FoodReq i c)
  with assms have "handleFoodUpdate d userId today now i c = Inr (d1, resp1)" by simp
  from handleFoodUpdate_repeat [OF this, of now'] FoodReq show ?thesis by simp
qed

lemma applyUpdate_accept:
  assumes "users d userId = Some user"
  shows "\<exists>d' resp. applyUpdate d userId today now ex fw x = Inr (d', resp) \<and>
      xpAwarded resp = x \<and>
      daily_logs d' = (daily_logs d)((userId, today) \<mapsto> written_row now ex fw x) \<and>
      habits_config d' = habits_config d \<and> (\<exists>user'. users d' userId = Some user')"
  using assms by (simp add: applyUpdate_eq)

lemma written_row_mark:
  assumes "\<And>r. hydration_xp_glasses (fw r) = hydration_xp_glasses r"
  shows "hydration_xp_glasses (written_row now ex fw x) =
           (case ex of None \<Rightarrow> 0 | Some r \<Rightarrow> hydration_xp_glasses r)"
  using assms by (cases ex) (auto simp: written_row_def new_daily_log_def Let_def)

lemma applyUpdate_mark:
  assumes "applyUpdate d userId today now (daily_logs d (userId, today)) fw x = Inr (d', resp)"
    and "\<And>r. hydration_xp_glasses (fw r) = hydration_xp_glasses r"
  shows "hydration_mark d' u day = hydration_mark d u day"
  using applyUpdate_InrD(1) [OF assms(1)] written_row_mark [of fw now "daily_logs d (userId, today)" x, OF assms(2)]
  by (simp add: hydration_mark_def)

lemma write_food_mark: "hydration_xp_glasses (write_food h v a r) = hydration_xp_glasses r"
  by (cases h) simp_all

lemma sleep_fields_mark: "hydration_xp_glasses (sleep_fields c r) = hydration_xp_glasses r"
  by (simp add: sleep_fields_def Let_def)

lemma steps_fields_mark: "hydration_xp_glasses (steps_fields src c r) = hydration_xp_glasses r"
  by (simp add: steps_fields_def Let_def)

lemma hydration_rule_eq:
  "hydration_rule ex g G =
     \<lparr>newXpGlasses = max (case ex of None \<Rightarrow> 0 | Some r \<Rightarrow> hydration_xp_glasses r) g,
      glassXpDelta = 5 * (max (case ex of None \<Rightarrow> 0 | Some r \<Rightarrow> hydration_xp_glasses r) g -
                          (case ex of None \<Rightarrow> 0 | Some r \<Rightarrow> hydration_xp_glasses r)),
      newGoalAwarded = (if g \<ge> G \<and> (case ex of None \<Rightarrow> 0 | Some r \<Rightarrow> hydration_goal_xp_awarded r) = 0
                        then 1 else (case ex of None \<Rightarrow> 0 | Some r \<Rightarrow> hydration_goal_xp_awarded r)),
      goalXpDelta = (if g \<ge> G \<and> (case ex of None \<Rightarrow> 0 | Some r \<Rightarrow> hydration_goal_xp_awarded r) = 0
                     then 20 else 0)\<rparr>"
  by (auto simp: hydration_rule_def Let_def HYDRATION_GLASS_XP_def HYDRATION_GOAL_BONUS_XP_def max_def)

lemma handleHydrationUpdate_mark:
  assumes "handleHydrationUpdate d userId today now parsed = Inr (d', resp)"
  shows "\<exists>g. parsed = Some g \<and>
     hydration_mark d' userId today = max (hydration_mark d userId today) g \<and>
     (\<forall>k. k \<noteq> (userId, today) \<longrightarrow> daily_logs d' k = daily_logs d k)"
proof -
  from assms obtain g where v: "parsed = Some g" and g0: "\<not> g < 0"
    by (cases parsed) (auto simp: handleHydrationUpdate_def split: if_splits)
  let ?goal = "case habits_config d userId of None \<Rightarrow> 8 | Some g \<Rightarrow> cfg_hydration_glasses g"
  let ?ex = "daily_logs d (userId, today)"
  let ?c = "hydration_rule ?ex g ?goal"
  let ?fw = "\<lambda>r. r\<lparr>hydration_glasses := Some g, hydration_xp_glasses := newXpGlasses ?c,
                      hydration_goal_xp_awarded := newGoalAwarded ?c\<rparr>"
  let ?x = "capDailyXp (Some (case ?ex of None \<Rightarrow> 0 | Some r \<Rightarrow> xp_earned r))
              (glassXpDelta ?c + goalXpDelta ?c)"
  from assms v g0 have A: "applyUpdate d userId today now ?ex ?fw ?x = Inr (d', resp)"
    by (simp add: handleHydrationUpdate_def Let_def)
  have "hydration_xp_glasses (written_row now ?ex ?fw ?x) = newXpGlasses ?c"
    by (simp add: written_row_def Let_def)
  with applyUpdate_InrD(1) [OF A] v show ?thesis
    by (simp add: hydration_mark_def hydration_rule_eq)
qed

lemma handleStepsUpdate_mark:
  assumes "handleStepsUpdate d userId today now dn v src = Inr (d', resp)"
  shows "hydration_mark d' u day = hydration_mark d u day"
  using assms unfolding handleStepsUpdate_def Let_def
  by (cases v) (auto split: if_splits elim!: applyUpdate_mark simp: steps_fields_mark)

lemma handleMovementUpdate_mark:
  assumes "handleMovementUpdate d userId today now v = Inr (d', resp)"
  shows "hydration_mark d' u day = hydration_mark d u day"
  using assms unfolding handleMovementUpdate_def Let_def
  by (auto split: if_splits elim!: applyUpdate_mark)

lemma handleSleepUpdate_mark:
  assumes "handleSleepUpdate d userId today now s e = Inr (d', resp)"
  shows "hydration_mark d' u day = hydration_mark d u day"
  using assms unfolding handleSleepUpdate_def Let_def
  by (auto split: if_splits elim!: applyUpdate_mark simp: sleep_fields_mark)

lemma handleFoodUpdate_mark:
  assumes "handleFoodUpdate d userId today now i c = Inr (d', resp)"
  shows "hydration_mark d' u day = hydration_mark d u day"
proof (cases "case i of None \<Rightarrow> None | Some i \<Rightarrow> FOOD_HABITS i")
  case None
  with assms show ?thesis by (simp add: handleFoodUpdate_def)
next
  case (Some h)
  with assms show ?thesis unfolding handleFoodUpdate_def Let_def
    by (auto split: if_splits elim!: applyUpdate_mark simp: write_food_mark)
qed

lemma patch_today_mark:
  assumes "patch_today d userId today now dn req = Inr (d', resp)"
  shows "hydration_mark d u day \<le> hydration_mark d' u day"
proof (cases req)
  case (StepsReq v src)
  with assms have "handleStepsUpdate d userId today now dn v src = Inr (d', resp)" by simp
  from handleStepsUpdate_mark [OF this, of u day] show ?thesis by simp
next
  case (MovementReq v)
  with assms have "handleMovementUpdate d userId today now v = Inr (d', resp)" by simp
  from handleMovementUpdate_mark [OF this, of u day] show ?thesis by simp
next
  case (HydrationReq v)
  with assms have "handleHydrationUpdate d userId today now v = Inr (d', resp)" by simp
  from handleHydrationUpdate_mark [OF this] show ?thesis
    by (cases "(u, day) = (userId, today)") (auto simp: hydration_mark_def)
next
  case (SleepReq s e)
  with assms have "handleSleepUpdate d userId today now s e = Inr (d', resp)" by simp
  from handleSleepUpdate_mark [OF this, of u day] show ?thesis by simp
next
  case (FoodReq i c)
  with assms have "handleFoodUpdate d userId today now i c = Inr (d', resp)" by simp
  from handleFoodUpdate_mark [OF this, of u day] show ?thesis by simp
qed

lemma handleHydrationUpdate_accept:
  assumes "users d userId = Some user" "0 \<le> g"
    and "hydration_mark d userId today = m" "hydration_goal_flag d userId today = f"
    and "day_xp d userId today = cur" "hydration_goal_of d userId = G"
  shows "\<exists>d' resp user'.
      handleHydrationUpdate d userId today now (Some g) = Inr (d', resp) \<and>
      xpAwarded resp =
        capDailyXp (Some cur) (5 * (max m g - m) + (if g \<ge> G \<and> f = 0 then 20 else 0)) \<and>
      hydration_mark d' userId today = max m g \<and>
      hydration_goal_flag d' userId today = (if g \<ge> G \<and> f = 0 then 1 else f) \<and>
      day_xp d' userId today = cur + xpAwarded resp \<and>
      hydration_goal_of d' userId = G \<and> users d' userId = Some user'"
proof -
  let ?ex = "daily_logs d (userId, today)"
  let ?c = "hydration_rule ?ex g G"
  let ?fw = "\<lambda>r. r\<lparr>hydration_glasses := Some g, hydration_xp_glasses := newXpGlasses ?c,
                      hydration_goal_xp_awarded := newGoalAwarded ?c\<rparr>"
  let ?x = "capDailyXp (Some cur) (glassXpDelta ?c + goalXpDelta ?c)"
  let ?W = "written_row now ?ex ?fw ?x"
  have H: "handleHydrationUpdate d userId today now (Some g) =
             applyUpdate d userId today now ?ex ?fw ?x"
    using assms(2,5,6)
    by (simp add: handleHydrationUpdate_def Let_def day_xp_def hydration_goal_of_def)
  from applyUpdate_accept [OF assms(1), of today now ?ex ?fw ?x]
  obtain d' resp user' where A: "applyUpdate d userId today now ?ex ?fw ?x = Inr (d', resp)"
    and X: "xpAwarded resp = ?x"
    and L: "daily_logs d' = (daily_logs d)((userId, today) \<mapsto> ?W)"
    and C: "habits_config d' = habits_config d" and U: "users d' userId = Some user'"
    by blast
  have c: "?c = \<lparr>newXpGlasses = max m g, glassXpDelta = 5 * (max m g - m),
                 newGoalAwarded = (if g \<ge> G \<and> f = 0 then 1 else f),
                 goalXpDelta = (if g \<ge> G \<and> f = 0 then 20 else 0)\<rparr>"
    using assms(3,4) unfolding hydration_rule_eq
    by (simp add: hydration_mark_def hydration_goal_flag_def)
  have x0: "0 \<le> ?x" by (rule capDailyXp_bounds(1))
  have w1: "hydration_xp_glasses ?W = newXpGlasses ?c"
    and w2: "hydration_goal_xp_awarded ?W = newGoalAwarded ?c"
    by (simp_all add: written_row_def Let_def)
  have w3: "xp_earned ?W = cur + ?x"
    using written_row_xp_earned [of ?fw ?x now ?ex] x0 assms(5) by (simp add: day_xp_def)
  show ?thesis
    apply (intro exI [of _ d'] exI [of _ resp] exI [of _ user'])
    using H A X L C U w1 w2 w3 assms(6)
    by (simp add: c hydration_mark_def hydration_goal_flag_def day_xp_def hydration_goal_of_def)
qed

lemma hydration_sequence:
  assumes "users d userId = Some user" "daily_logs d (userId, today) = None"
    and "5 < hydration_goal_of d userId"
  shows "\<exists>d1 r1 d2 r2 d3 r3.
      handleHydrationUpdate d userId today t1 (Some 3) = Inr (d1, r1) \<and> xpAwarded r1 = 15 \<and>
      handleHydrationUpdate d1 userId today t2 (Some 5) = Inr (d2, r2) \<and> xpAwarded r2 = 10 \<and>
      handleHydrationUpdate d2 userId today t3 (Some 3) = Inr (d3, r3) \<and> xpAwarded r3 = 0 \<and>
      hydration_mark d3 userId today = 5"
proof -
  let ?G = "hydration_goal_of d userId"
  have s0: "hydration_mark d userId today = 0" "hydration_goal_flag d userId today = 0"
    "day_xp d userId today = 0"
    using assms(2) by (simp_all add: hydration_mark_def hydration_goal_flag_def day_xp_def)
  from handleHydrationUpdate_accept [OF assms(1) _ s0 refl, of 3 t1] assms(3)
  obtain d1 r1 u1 where h1: "handleHydrationUpdate d userId today t1 (Some 3) = Inr (d1, r1)"
    and x1: "xpAwarded r1 = 15"
    and s1: "hydration_mark d1 userId today = 3" "hydration_goal_flag d1 userId today = 0"
      "day_xp d1 userId today = 15" "hydration_goal_of d1 userId = ?G"
    and u1: "users d1 userId = Some u1"
    by (auto simp: capDailyXp_def DAILY_XP_CAP_def)
  from handleHydrationUpdate_accept [OF u1 _ s1, of 5 t2] assms(3)
  obtain d2 r2 u2 where h2: "handleHydrationUpdate d1 userId today t2 (Some 5) = Inr (d2, r2)"
    and x2: "xpAwarded r2 = 10"
    and s2: "hydration_mark d2 userId today = 5" "hydration_goal_flag d2 userId today = 0"
      "day_xp d2 userId today = 25" "hydration_goal_of d2 userId = ?G"
    and u2: "users d2 userId = Some u2"
    by (auto simp: capDailyXp_def DAILY_XP_CAP_def)
  from handleHydrationUpdate_accept [OF u2 _ s2, of 3 t3] assms(3)
  obtain d3 r3 u3 where h3: "handleHydrationUpdate d2 userId today t3 (Some 3) = Inr (d3, r3)"
    and x3: "xpAwarded r3 = 0"
    and s3: "hydration_mark d3 userId today = 5"
    by (auto simp: capDailyXp_def DAILY_XP_CAP_def)
  from h1 x1 h2 x2 h3 x3 s3 show ?thesis by blast
qed

lemma steps_rule_manual:
  fixes ex v G now dn
  defines "c \<equiv> steps_rule ex ''manual'' v G now dn"
    and "pm \<equiv> (case ex of None \<Rightarrow> 0 | Some r \<Rightarrow> (case steps_manual r of None \<Rightarrow> 0 | Some m \<Rightarrow> m))"
    and "lb \<equiv> (case ex of None \<Rightarrow> None | Some r \<Rightarrow> steps_last_bonus_at r)"
    and "fl \<equiv> (case ex of None \<Rightarrow> 0 | Some r \<Rightarrow> steps_goal_xp_awarded r)"
  shows "sc_bonus c = (v - pm \<ge> 500 \<and> dn - (case lb of None \<Rightarrow> 0 | Some t \<Rightarrow> t) \<ge> 7200000)"
    and "newLastBonusAt c = (if sc_bonus c then Some now else lb)"
    and "newManual c = Some v"
    and "newGoogleFit c = (case ex of None \<Rightarrow> None | Some r \<Rightarrow> steps_google_fit r)"
    and "effectiveSteps c = max v (case newGoogleFit c of None \<Rightarrow> 0 | Some g \<Rightarrow> g)"
    and "newGoalXpAwarded c = (if effectiveSteps c \<ge> G \<and> fl = 0 then 1 else fl)"
    and "sc_rawXpDelta c =
           (if effectiveSteps c \<ge> G \<and> fl = 0 then (if G = 5000 then 20 else 40) else 0) +
           (if sc_bonus c then 5 else 0)"
  unfolding c_def pm_def lb_def fl_def
  by (auto simp: steps_rule_def Let_def STEP_BONUS_INCREMENT_def STEP_BONUS_XP_def TWO_HOURS_MS_def)

lemma handleStepsUpdate_manual_accept:
  assumes "users d userId = Some user" "0 \<le> v" "v \<le> 50000" "steps_source src = ''manual''"
  shows "\<exists>d' resp user'.
      handleStepsUpdate d userId today now dn (Some v) src = Inr (d', resp) \<and>
      xpAwarded resp =
        capDailyXp (Some (day_xp d userId today))
          (sc_rawXpDelta (steps_rule (daily_logs d (userId, today)) ''manual'' v (step_goal_of d userId) now dn)) \<and>
      daily_logs d' (userId, today) =
        Some (written_row now (daily_logs d (userId, today))
          (steps_fields ''manual''
             (steps_rule (daily_logs d (userId, today)) ''manual'' v (step_goal_of d userId) now dn))
          (xpAwarded resp)) \<and>
      habits_config d' = habits_config d \<and> users d' userId = Some user'"
proof -
  let ?ex = "daily_logs d (userId, today)"
  let ?c = "steps_rule ?ex ''manual'' v (step_goal_of d userId) now dn"
  let ?x = "capDailyXp (Some (day_xp d userId today)) (sc_rawXpDelta ?c)"
  have H: "handleStepsUpdate d userId today now dn (Some v) src =
             applyUpdate d userId today now ?ex (steps_fields ''manual'' ?c) ?x"
    using assms(2,3,4)
    by (simp add: handleStepsUpdate_def Let_def day_xp_def step_goal_of_def steps_source_def
        MAX_MANUAL_STEPS_def)
  from applyUpdate_accept [OF assms(1), of today now ?ex "steps_fields ''manual'' ?c" ?x] H
  show ?thesis by auto
qed

lemma handleStepsUpdate_manual_InrD:
  assumes "handleStepsUpdate d userId today now dn (Some v) src = Inr (d', resp)"
    and "steps_source src = ''manual''"
  shows "xpAwarded resp =
        capDailyXp (Some (day_xp d userId today))
          (sc_rawXpDelta (steps_rule (daily_logs d (userId, today)) ''manual'' v (step_goal_of d userId) now dn))"
    and "daily_logs d' (userId, today) =
        Some (written_row now (daily_logs d (userId, today))
          (steps_fields ''manual''
             (steps_rule (daily_logs d (userId, today)) ''manual'' v (step_goal_of d userId) now dn))
          (xpAwarded resp))"
proof -
  let ?ex = "daily_logs d (userId, today)"
  let ?c = "steps_rule ?ex ''manual'' v (step_goal_of d userId) now dn"
  let ?x = "capDailyXp (Some (day_xp d userId today)) (sc_rawXpDelta ?c)"
  from assms have A: "applyUpdate d userId today now ?ex (steps_fields ''manual'' ?c) ?x = Inr (d', resp)"
    by (simp add: handleStepsUpdate_def Let_def day_xp_def step_goal_of_def steps_source_def
        split: if_splits)
  from applyUpdate_InrD(1,2) [OF A]
  show "xpAwarded resp = ?x"
    and "daily_logs d' (userId, today) =
        Some (written_row now ?ex (steps_fields ''manual'' ?c) (xpAwarded resp))"
    by simp_all
qed

lemma written_row_steps_fields:
  "steps_manual (written_row now ex (steps_fields ''manual'' c) x) = newManual c"
  "steps_last_bonus_at (written_row now ex (steps_fields ''manual'' c) x) = newLastBonusAt c"
  "steps_goal_xp_awarded (written_row now ex (steps_fields ''manual'' c) x) = newGoalXpAwarded c"
  "steps_google_fit (written_row now ex (steps_fields ''manual'' c) x) =
     (case ex of None \<Rightarrow> None | Some r \<Rightarrow> steps_google_fit r)"
  by (cases ex; simp add: steps_fields_def written_row_def Let_def new_daily_log_def)+

lemma handleStepsUpdate_manual_step:
  assumes "users d userId = Some user" "0 \<le> v" "v \<le> 50000" "steps_source src = ''manual''"
    and "stored_manual d userId today = pm" "stored_last_bonus d userId today = lb"
    and "steps_goal_flag d userId today = fl"
    and "(case daily_logs d (userId, today) of None \<Rightarrow> None | Some r \<Rightarrow> steps_google_fit r) = None"
    and "day_xp d userId today = cur" "step_goal_of d userId = G" "v < G"
  shows "\<exists>d' resp user'.
      handleStepsUpdate d userId today now dn (Some v) src = Inr (d', resp) \<and>
      xpAwarded resp =
        capDailyXp (Some cur)
          (if v - pm \<ge> 500 \<and> dn - (case lb of None \<Rightarrow> 0 | Some t \<Rightarrow> t) \<ge> 7200000 then 5 else 0) \<and>
      stored_manual d' userId today = v \<and>
      stored_last_bonus d' userId today =
        (if v - pm \<ge> 500 \<and> dn - (case lb of None \<Rightarrow> 0 | Some t \<Rightarrow> t) \<ge> 7200000
         then Some now else lb) \<and>
      steps_goal_flag d' userId today = fl \<and>
      (case daily_logs d' (userId, today) of None \<Rightarrow> None | Some r \<Rightarrow> steps_google_fit r) = None \<and>
      day_xp d' userId today = cur + xpAwarded resp \<and>
      step_goal_of d' userId = G \<and> users d' userId = Some user'"
proof -
  let ?ex = "daily_logs d (userId, today)"
  let ?c = "steps_rule ?ex ''manual'' v G now dn"
  let ?b = "v - pm \<ge> 500 \<and> dn - (case lb of None \<Rightarrow> 0 | Some t \<Rightarrow> t) \<ge> 7200000"
  note R = steps_rule_manual [of ?ex v G now dn]
  have b: "sc_bonus ?c = ?b"
    using R(1) assms(5,6) by (simp add: stored_manual_def stored_last_bonus_def)
  have gf: "newGoogleFit ?c = None" using R(4) assms(8) by simp
  have eff: "effectiveSteps ?c = v" using R(5) gf assms(2) by simp
  have fl: "newGoalXpAwarded ?c = fl"
    using R(6) eff assms(7,11) by (simp add: steps_goal_flag_def)
  have raw: "sc_rawXpDelta ?c = (if ?b then 5 else 0)"
    using R(7) eff b assms(11) by simp
  have lb: "newLastBonusAt ?c = (if ?b then Some now else lb)"
    using R(2) b assms(6) by (simp add: stored_last_bonus_def)
  from handleStepsUpdate_manual_accept [OF assms(1-4), of today now dn]
  obtain d' resp user' where
    H: "handleStepsUpdate d userId today now dn (Some v) src = Inr (d', resp)"
    and X: "xpAwarded resp = capDailyXp (Some cur) (sc_rawXpDelta ?c)"
    and W: "daily_logs d' (userId, today) =
              Some (written_row now ?ex (steps_fields ''manual'' ?c) (xpAwarded resp))"
    and C: "habits_config d' = habits_config d" and U: "users d' userId = Some user'"
    unfolding assms(9,10) by blast
  have x0: "0 \<le> xpAwarded resp" unfolding X by (rule capDailyXp_bounds(1))
  have xe: "xp_earned (written_row now ?ex (steps_fields ''manual'' ?c) (xpAwarded resp)) =
              cur + xpAwarded resp"
    using written_row_xp_earned [of "steps_fields ''manual'' ?c" "xpAwarded resp" now ?ex]
      x0 assms(9)
    by (simp add: steps_fields_xp_earned day_xp_def)
  show ?thesis
    apply (intro exI [of _ d'] exI [of _ resp] exI [of _ user'])
    using H X W C U xe assms(8,10)
    by (simp add: raw lb fl R(3) written_row_steps_fields stored_manual_def
        stored_last_bonus_def steps_goal_flag_def day_xp_def step_goal_of_def)
qed

lemma steps_sequence:
  assumes "users d userId = Some user" "daily_logs d (userId, today) = None"
    and "1800 < step_goal_of d userId" "steps_source src = ''manual''"
    and "7200000 \<le> dn1" "dn2 - now1 < 7200000" "7200000 \<le> dn3 - now1"
  shows "\<exists>d1 r1 d2 r2 d3 r3.
      handleStepsUpdate d userId today now1 dn1 (Some 600) src = Inr (d1, r1) \<and> xpAwarded r1 = 5 \<and>
      stored_last_bonus d1 userId today = Some now1 \<and>
      handleStepsUpdate d1 userId today now2 dn2 (Some 1200) src = Inr (d2, r2) \<and> xpAwarded r2 = 0 \<and>
      stored_last_bonus d2 userId today = Some now1 \<and>
      handleStepsUpdate d2 userId today now3 dn3 (Some 1800) src = Inr (d3, r3) \<and> xpAwarded r3 = 5 \<and>
      stored_last_bonus d3 userId today = Some now3"
proof -
  let ?G = "step_goal_of d userId"
  have s0: "stored_manual d userId today = 0" "stored_last_bonus d userId today = None"
    "steps_goal_flag d userId today = 0"
    "(case daily_logs d (userId, today) of None \<Rightarrow> None | Some r \<Rightarrow> steps_google_fit r) = None"
    "day_xp d userId today = 0"
    using assms(2)
    by (simp_all add: stored_manual_def stored_last_bonus_def steps_goal_flag_def day_xp_def)
  from handleStepsUpdate_manual_step [OF assms(1) _ _ assms(4) s0 refl, of 600 now1 dn1]
    assms(3,5)
  obtain d1 r1 u1 where h1: "handleStepsUpdate d userId today now1 dn1 (Some 600) src = Inr (d1, r1)"
    and x1: "xpAwarded r1 = 5"
    and s1: "stored_manual d1 userId today = 600" "stored_last_bonus d1 userId today = Some now1"
      "steps_goal_flag d1 userId today = 0"
      "(case daily_logs d1 (userId, today) of None \<Rightarrow> None | Some r \<Rightarrow> steps_google_fit r) = None"
      "day_xp d1 userId today = 5" "step_goal_of d1 userId = ?G"
    and u1: "users d1 userId = Some u1"
    by (auto simp: capDailyXp_def DAILY_XP_CAP_def)
  from handleStepsUpdate_manual_step [OF u1 _ _ assms(4) s1, of 1200 now2 dn2] assms(3,6)
  obtain d2 r2 u2 where h2: "handleStepsUpdate d1 userId today now2 dn2 (Some 1200) src = Inr (d2, r2)"
    and x2: "xpAwarded r2 = 0"
    and s2: "stored_manual d2 userId today = 1200" "stored_last_bonus d2 userId today = Some now1"
      "steps_goal_flag d2 userId today = 0"
      "(case daily_logs d2 (userId, today) of None \<Rightarrow> None | Some r \<Rightarrow> steps_google_fit r) = None"
      "day_xp d2 userId today = 5" "step_goal_of d2 userId = ?G"
    and u2: "users d2 userId = Some u2"
    by (auto simp: capDailyXp_def DAILY_XP_CAP_def)
  from handleStepsUpdate_manual_step [OF u2 _ _ assms(4) s2, of 1800 now3 dn3] assms(3,7)
  obtain d3 r3 u3 where h3: "handleStepsUpdate d2 userId today now3 dn3 (Some 1800) src = Inr (d3, r3)"
    and x3: "xpAwarded r3 = 5"
    and s3: "stored_last_bonus d3 userId today = Some now3"
    by (auto simp: capDailyXp_def DAILY_XP_CAP_def)
  from h1 x1 s1(2) h2 x2 s2(2) h3 x3 s3 show ?thesis by blast
qed

section \<open>Properties of the mascot evolution\<close>

text \<open>
  The schema has no table \<open>badges\<close>, and no table of it has a column \<open>mascot_stage\<close>.
\<close>

lemma schema_no_badges_table: "map_of schema ''badges'' = None"
  by (simp add: schema_def)

lemma schema_no_mascot_stage_column:
  "list_all (\<lambda>(tbl, tableColumns). ''mascot_stage'' \<notin> set tableColumns) schema"
  by (simp add: schema_def)

text \<open>So none of the three statements of \<open>checkAndApplyEvolution\<close> can be prepared.\<close>

lemma prepare_select_user:
  "prepare ''users'' [''bmi_category'', ''mascot_id'', ''mascot_name'', ''mascot_stage'', ''id'']
     = Inl SqliteError"
  by (simp add: prepare_def schema_def)

lemma prepare_update_user:
  "prepare ''users'' [''mascot_id'', ''mascot_name'', ''mascot_stage'', ''id''] = Inl SqliteError"
  by (simp add: prepare_def schema_def)

lemma prepare_insert_badge:
  "prepare ''badges'' cols = Inl SqliteError"
  by (simp add: prepare_def schema_no_badges_table)

text \<open>
  A call that crosses level 5 or level 10 throws at the first statement and leaves the
  store as it was; any other call returns \<open>null\<close>. No call changes the mascot.
\<close>

lemma checkAndApplyEvolution_crossing:
  assumes "previousLevel < newLevel"
    and "previousLevel < 5 \<and> 5 \<le> newLevel \<or> previousLevel < 10 \<and> 10 \<le> newLevel"
  shows "checkAndApplyEvolution d userId previousLevel newLevel = (Inl SqliteError, d)"
  using assms
  by (auto simp: checkAndApplyEvolution_def EVOLUTION_LEVEL_5_def EVOLUTION_LEVEL_10_def
        prepare_select_user)

lemma checkAndApplyEvolution_no_crossing:
  assumes "newLevel \<le> previousLevel \<or> \<not> (previousLevel < 5 \<and> 5 \<le> newLevel) \<and>
             \<not> (previousLevel < 10 \<and> 10 \<le> newLevel)"
  shows "checkAndApplyEvolution d userId previousLevel newLevel = (Inr None, d)"
  using assms
  by (auto simp: checkAndApplyEvolution_def EVOLUTION_LEVEL_5_def EVOLUTION_LEVEL_10_def)

text \<open>
  Claim C6. A level jump from \<open>previousLevel = 4\<close> to \<open>newLevel = 11\<close> is to grant both
  the level-5 badge and the champion badge and to set the mascot to the final stage. On
  the schema of db/index.js the call does neither, for every store and every user: it
  throws \<open>SqliteError\<close> when it prepares its \<open>SELECT\<close>, which names the column
  \<open>users.mascot_stage\<close>, and the store (the user's mascot with it) is as before. The
  \<open>UPDATE\<close> that sets the mascot and the two \<open>INSERT OR IGNORE INTO badges\<close> that the
  source writes for this very case are never reached.
\<close>

theorem checkAndApplyEvolution_jump_4_11_throws:
  "checkAndApplyEvolution d userId 4 11 = (Inl SqliteError, d)"
  by (simp add: checkAndApplyEvolution_def EVOLUTION_LEVEL_5_def EVOLUTION_LEVEL_10_def
        prepare_select_user)

section \<open>The daily cap, duplicate submissions, hydration and the step bonus\<close>

text \<open>
  Claim C1. An accepted update of any of the five categories adds to the day's
  \<open>xp_earned\<close> exactly the awarded XP, which lies between 0 and the room left under
  the cap of 150; so a day total of at most 150 before the update is at most 150 after
  it. Hence for every user and every date: if the day total is at most 150, it is at
  most 150 after any sequence of update requests by any users on any days.
\<close>

theorem daily_cap_invariant:
  "(patch_today d userId today now dateNow req = Inr (d', resp) \<longrightarrow>
      day_xp d' userId today = day_xp d userId today + xpAwarded resp \<and>
      0 \<le> xpAwarded resp \<and>
      xpAwarded resp \<le> max 0 (150 - day_xp d userId today) \<and>
      (day_xp d userId today \<le> 150 \<longrightarrow> day_xp d' userId today \<le> 150)) \<and>
   (day_xp d u day \<le> 150 \<longrightarrow> day_xp (serve d reqs) u day \<le> 150)"
proof (intro conjI impI)
  assume "patch_today d userId today now dateNow req = Inr (d', resp)"
  then have ok: "step_ok d userId today d' resp" by (rule patch_today_step)
  then show "day_xp d' userId today = day_xp d userId today + xpAwarded resp"
    and "0 \<le> xpAwarded resp"
    and "xpAwarded resp \<le> max 0 (150 - day_xp d userId today)"
    by (simp_all add: step_ok_def DAILY_XP_CAP_def)
  assume "day_xp d userId today \<le> 150"
  with ok show "day_xp d' userId today \<le> 150"
    by (auto simp: step_ok_def DAILY_XP_CAP_def)
next
  assume "day_xp d u day \<le> 150"
  then show "day_xp (serve d reqs) u day \<le> 150"
    using serve_capped [of d u day reqs] by (simp add: DAILY_XP_CAP_def)
qed

theorem daily_cap_invariant_witness:
  "day_xp example_cap_db ''u1'' 5 \<le> 150 \<and>
   (\<exists>d' resp. patch_today example_cap_db ''u1'' 5 100 100 (MovementReq (JBool True)) = Inr (d', resp) \<and>
      day_xp d' ''u1'' 5 = day_xp example_cap_db ''u1'' 5 + xpAwarded resp \<and>
      0 \<le> xpAwarded resp \<and> day_xp d' ''u1'' 5 \<le> 150) \<and>
   day_xp (serve example_cap_db
      [(''u1'', 5, 100, 100, MovementReq (JBool True)),
       (''u1'', 5, 200, 200, FoodReq (Some ''vegetables'') (JBool True)),
       (''u1'', 5, 300, 300, HydrationReq (Some 8))]) ''u1'' 5 \<le> 150"
proof -
  let ?reqs = "[(''u1'', 5, 100, 100, MovementReq (JBool True)),
       (''u1'', 5, 200, 200, FoodReq (Some ''vegetables'') (JBool True)),
       (''u1'', 5, 300, 300, HydrationReq (Some 8))]"
  have h: "day_xp example_cap_db ''u1'' 5 \<le> 150"
    by (simp add: day_xp_def example_cap_db_def new_daily_log_def)
  obtain d' resp where
    p: "patch_today example_cap_db ''u1'' 5 100 100 (MovementReq (JBool True)) = Inr (d', resp)"
    by (auto simp: handleMovementUpdate_def is_flag_value_def applyUpdate_eq Let_def
      example_cap_db_def example_streak_db_def)
  note spec = daily_cap_invariant
    [of example_cap_db "''u1''" 5 100 100 "MovementReq (JBool True)" d' resp "''u1''" 5 ?reqs]
  from spec p h have a: "day_xp d' ''u1'' 5 = day_xp example_cap_db ''u1'' 5 + xpAwarded resp"
    "0 \<le> xpAwarded resp" "day_xp d' ''u1'' 5 \<le> 150"
    by blast+
  from spec h have b: "day_xp (serve example_cap_db ?reqs) ''u1'' 5 \<le> 150"
    by blast
  from h p a b show ?thesis by blast
qed

text \<open>
  Claim C4. When an update request has been accepted, submitting the same request again
  for the same user and day (at any later time) is accepted as well, awards 0 XP and
  reports no level-up; it leaves the users table unchanged (so \<open>xp_total\<close> and
  \<open>level\<close>), and the day's row is the row after the first request with only
  \<open>updated_at\<close> renewed (so \<open>xp_earned\<close> and every award flag are unchanged). This
  holds for every request of the five categories, hence for each one-shot award:
  movement done, the three food checkboxes, sleep start, sleep end, the sleep goal, the
  steps goal and the hydration goal bonus.
\<close>

theorem duplicate_submission_noop:
  "patch_today d userId today now dateNow req = Inr (d1, resp1) \<longrightarrow>
     (\<exists>row1 d2 resp2.
        daily_logs d1 (userId, today) = Some row1 \<and>
        patch_today d1 userId today now' dateNow' req = Inr (d2, resp2) \<and>
        xpAwarded resp2 = 0 \<and> levelUp resp2 = None \<and>
        xpTotal resp2 = xpTotal resp1 \<and> resp_level resp2 = resp_level resp1 \<and>
        xpEarned resp2 = xpEarned resp1 \<and>
        users d2 = users d1 \<and>
        daily_logs d2 = (daily_logs d1)((userId, today) \<mapsto> row1\<lparr>updated_at := now'\<rparr>) \<and>
        d2 = d1\<lparr>daily_logs := (daily_logs d1)((userId, today) \<mapsto> row1\<lparr>updated_at := now'\<rparr>)\<rparr>)"
proof
  assume "patch_today d userId today now dateNow req = Inr (d1, resp1)"
  from patch_today_repeat [OF this, of now' dateNow']
  obtain row1 where r: "daily_logs d1 (userId, today) = Some row1"
    and p: "patch_today d1 userId today now' dateNow' req =
       Inr (d1\<lparr>daily_logs := (daily_logs d1)((userId, today) \<mapsto> row1\<lparr>updated_at := now'\<rparr>)\<rparr>,
            resp1\<lparr>xpAwarded := 0, levelUp := None\<rparr>)"
    by blast
  show "\<exists>row1 d2 resp2.
        daily_logs d1 (userId, today) = Some row1 \<and>
        patch_today d1 userId today now' dateNow' req = Inr (d2, resp2) \<and>
        xpAwarded resp2 = 0 \<and> levelUp resp2 = None \<and>
        xpTotal resp2 = xpTotal resp1 \<and> resp_level resp2 = resp_level resp1 \<and>
        xpEarned resp2 = xpEarned resp1 \<and>
        users d2 = users d1 \<and>
        daily_logs d2 = (daily_logs d1)((userId, today) \<mapsto> row1\<lparr>updated_at := now'\<rparr>) \<and>
        d2 = d1\<lparr>daily_logs := (daily_logs d1)((userId, today) \<mapsto> row1\<lparr>updated_at := now'\<rparr>)\<rparr>"
    by (intro exI [of _ row1]
        exI [of _ "d1\<lparr>daily_logs := (daily_logs d1)((userId, today) \<mapsto> row1\<lparr>updated_at := now'\<rparr>)\<rparr>"]
        exI [of _ "resp1\<lparr>xpAwarded := 0, levelUp := None\<rparr>"])
      (simp add: r p)
qed

theorem duplicate_submission_noop_witness:
  "\<exists>d1 resp1 row1 d2 resp2.
     patch_today example_cap_db ''u1'' 5 100 100 (MovementReq (JBool True)) = Inr (d1, resp1) \<and>
     daily_logs d1 (''u1'', 5) = Some row1 \<and>
     patch_today d1 ''u1'' 5 200 200 (MovementReq (JBool True)) = Inr (d2, resp2) \<and>
     xpAwarded resp2 = 0 \<and> users d2 = users d1 \<and>
     daily_logs d2 = (daily_logs d1)((''u1'', 5) \<mapsto> row1\<lparr>updated_at := 200\<rparr>)"
proof -
  obtain d1 resp1 where
    p: "patch_today example_cap_db ''u1'' 5 100 100 (MovementReq (JBool True)) = Inr (d1, resp1)"
    by (auto simp: handleMovementUpdate_def is_flag_value_def applyUpdate_eq Let_def
      example_cap_db_def example_streak_db_def)
  from duplicate_submission_noop
    [of example_cap_db "''u1''" 5 100 100 "MovementReq (JBool True)" d1 resp1 200 200] p
  show ?thesis by blast
qed

text \<open>
  Claim C5. An accepted hydration update stores as high-water mark the maximum of the
  old mark and the new glass count, so the mark does not decrease, and its raw
  per-glass XP is 5 times the growth of the mark; no accepted request of any category
  lowers the mark of any row. On a day without a row yet, for a user whose goal is above
  5 glasses, the updates 3, 5 and 3 glasses award 15, 10 and 0 XP and leave the mark
  at 5.
\<close>

theorem hydration_high_water_mark:
  "(handleHydrationUpdate d userId today now parsed = Inr (d', resp) \<longrightarrow>
      (\<exists>g. parsed = Some g \<and>
         hydration_mark d' userId today = max (hydration_mark d userId today) g \<and>
         hydration_mark d userId today \<le> hydration_mark d' userId today \<and>
         glassXpDelta (hydration_rule (daily_logs d (userId, today)) g (hydration_goal_of d userId)) =
           5 * (hydration_mark d' userId today - hydration_mark d userId today))) \<and>
   (patch_today d userId today now dateNow req = Inr (d', resp) \<longrightarrow>
      hydration_mark d u day \<le> hydration_mark d' u day) \<and>
   (users d userId = Some user \<and> daily_logs d (userId, today) = None \<and>
    5 < hydration_goal_of d userId \<longrightarrow>
      (\<exists>d1 r1 d2 r2 d3 r3.
         handleHydrationUpdate d userId today t1 (Some 3) = Inr (d1, r1) \<and> xpAwarded r1 = 15 \<and>
         handleHydrationUpdate d1 userId today t2 (Some 5) = Inr (d2, r2) \<and> xpAwarded r2 = 10 \<and>
         handleHydrationUpdate d2 userId today t3 (Some 3) = Inr (d3, r3) \<and> xpAwarded r3 = 0 \<and>
         hydration_mark d3 userId today = 5))"
proof (intro conjI impI)
  assume "handleHydrationUpdate d userId today now parsed = Inr (d', resp)"
  from handleHydrationUpdate_mark [OF this]
  obtain g where g: "parsed = Some g"
    and m: "hydration_mark d' userId today = max (hydration_mark d userId today) g"
    by blast
  have "glassXpDelta (hydration_rule (daily_logs d (userId, today)) g (hydration_goal_of d userId)) =
           5 * (hydration_mark d' userId today - hydration_mark d userId today)"
    unfolding m hydration_rule_eq by (simp add: hydration_mark_def)
  with g m show "\<exists>g. parsed = Some g \<and>
         hydration_mark d' userId today = max (hydration_mark d userId today) g \<and>
         hydration_mark d userId today \<le> hydration_mark d' userId today \<and>
         glassXpDelta (hydration_rule (daily_logs d (userId, today)) g (hydration_goal_of d userId)) =
           5 * (hydration_mark d' userId today - hydration_mark d userId today)"
    by simp
next
  assume "patch_today d userId today now dateNow req = Inr (d', resp)"
  then show "hydration_mark d u day \<le> hydration_mark d' u day"
    by (rule patch_today_mark)
next
  assume "users d userId = Some user \<and> daily_logs d (userId, today) = None \<and>
    5 < hydration_goal_of d userId"
  then show "\<exists>d1 r1 d2 r2 d3 r3.
         handleHydrationUpdate d userId today t1 (Some 3) = Inr (d1, r1) \<and> xpAwarded r1 = 15 \<and>
         handleHydrationUpdate d1 userId today t2 (Some 5) = Inr (d2, r2) \<and> xpAwarded r2 = 10 \<and>
         handleHydrationUpdate d2 userId today t3 (Some 3) = Inr (d3, r3) \<and> xpAwarded r3 = 0 \<and>
         hydration_mark d3 userId today = 5"
    using hydration_sequence [of d userId user today t1 t2 t3] by blast
qed

theorem hydration_high_water_mark_witness:
  "users example_streak_db ''u1'' = Some example_user \<and>
   daily_logs example_streak_db (''u1'', 5) = None \<and>
   5 < hydration_goal_of example_streak_db ''u1'' \<and>
   (\<exists>d1 r1 d2 r2 d3 r3.
      handleHydrationUpdate example_streak_db ''u1'' 5 100 (Some 3) = Inr (d1, r1) \<and> xpAwarded r1 = 15 \<and>
      handleHydrationUpdate d1 ''u1'' 5 200 (Some 5) = Inr (d2, r2) \<and> xpAwarded r2 = 10 \<and>
      handleHydrationUpdate d2 ''u1'' 5 300 (Some 3) = Inr (d3, r3) \<and> xpAwarded r3 = 0 \<and>
      hydration_mark d3 ''u1'' 5 = 5 \<and>
      hydration_mark example_streak_db ''u1'' 5 \<le> hydration_mark d1 ''u1'' 5 \<and>
      hydration_mark d1 ''u1'' 5 \<le> hydration_mark d2 ''u1'' 5 \<and>
      hydration_mark d2 ''u1'' 5 \<le> hydration_mark d3 ''u1'' 5)"
proof -
  have u: "users example_streak_db ''u1'' = Some example_user"
    and n: "daily_logs example_streak_db (''u1'', 5) = None"
    and g: "5 < hydration_goal_of example_streak_db ''u1''"
    by (simp_all add: example_streak_db_def hydration_goal_of_def)
  from hydration_high_water_mark
    [of example_streak_db "''u1''" 5 100 "Some 3" _ _ _ _ _ _ example_user 100 200 300] u n g
  obtain d1 r1 d2 r2 d3 r3 where
    h1: "handleHydrationUpdate example_streak_db ''u1'' 5 100 (Some 3) = Inr (d1, r1)"
    and x1: "xpAwarded r1 = 15"
    and h2: "handleHydrationUpdate d1 ''u1'' 5 200 (Some 5) = Inr (d2, r2)" and x2: "xpAwarded r2 = 10"
    and h3: "handleHydrationUpdate d2 ''u1'' 5 300 (Some 3) = Inr (d3, r3)" and x3: "xpAwarded r3 = 0"
    and m3: "hydration_mark d3 ''u1'' 5 = 5"
    by blast
  from hydration_high_water_mark [of example_streak_db "''u1''" 5 100 "Some 3" d1 r1] h1
  have a1: "hydration_mark example_streak_db ''u1'' 5 \<le> hydration_mark d1 ''u1'' 5" by blast
  from hydration_high_water_mark [of d1 "''u1''" 5 200 "Some 5" d2 r2] h2
  have a2: "hydration_mark d1 ''u1'' 5 \<le> hydration_mark d2 ''u1'' 5" by blast
  from hydration_high_water_mark [of d2 "''u1''" 5 300 "Some 3" d3 r3] h3
  have a3: "hydration_mark d2 ''u1'' 5 \<le> hydration_mark d3 ''u1'' 5" by blast
  from u n g h1 x1 h2 x2 h3 x3 m3 a1 a2 a3 show ?thesis by blast
qed

text \<open>
  Claim C8. For an accepted manual steps update, the handler adds the bonus of 5 XP to
  the raw delta exactly when the new manual count exceeds the stored manual count (0 when
  none is stored) by at least 500 and at least two hours (7,200,000 ms) lie between the
  stored last-bonus time (the epoch when none is stored) and the handler's clock. The raw
  delta is the goal award, if due, plus this bonus, and the awarded XP is the raw delta
  after the daily cap. The stored last-bonus time becomes the request's time when the
  bonus is added and is unchanged otherwise. On a day without a row yet, with a step goal
  above 1800: manual counts 600, 1200 and 1800, the second less than two hours and the
  third at least two hours after the first, award 5, 0 and 5 XP.
\<close>

theorem manual_step_bonus:
  "(handleStepsUpdate d userId today now dateNow (Some v) src = Inr (d', resp) \<and>
    steps_source src = ''manual'' \<longrightarrow>
      (let c = steps_rule (daily_logs d (userId, today)) ''manual'' v (step_goal_of d userId) now dateNow
       in (sc_bonus c \<longleftrightarrow>
             v - stored_manual d userId today \<ge> 500 \<and>
             dateNow - (case stored_last_bonus d userId today of None \<Rightarrow> 0 | Some t \<Rightarrow> t) \<ge> 7200000) \<and>
          sc_rawXpDelta c =
            (if effectiveSteps c \<ge> step_goal_of d userId \<and> steps_goal_flag d userId today = 0
             then (if step_goal_of d userId = 5000 then 20 else 40) else 0) +
            (if sc_bonus c then 5 else 0) \<and>
          xpAwarded resp = capDailyXp (Some (day_xp d userId today)) (sc_rawXpDelta c) \<and>
          stored_last_bonus d' userId today =
            (if sc_bonus c then Some now else stored_last_bonus d userId today) \<and>
          stored_manual d' userId today = v)) \<and>
   (users d userId = Some user \<and> daily_logs d (userId, today) = None \<and>
    1800 < step_goal_of d userId \<and> steps_source src = ''manual'' \<and>
    7200000 \<le> dn1 \<and> dn2 - now1 < 7200000 \<and> 7200000 \<le> dn3 - now1 \<longrightarrow>
      (\<exists>d1 r1 d2 r2 d3 r3.
         handleStepsUpdate d userId today now1 dn1 (Some 600) src = Inr (d1, r1) \<and> xpAwarded r1 = 5 \<and>
         stored_last_bonus d1 userId today = Some now1 \<and>
         handleStepsUpdate d1 userId today now2 dn2 (Some 1200) src = Inr (d2, r2) \<and> xpAwarded r2 = 0 \<and>
         stored_last_bonus d2 userId today = Some now1 \<and>
         handleStepsUpdate d2 userId today now3 dn3 (Some 1800) src = Inr (d3, r3) \<and> xpAwarded r3 = 5 \<and>
         stored_last_bonus d3 userId today = Some now3))"
proof (intro conjI impI)
  assume a: "handleStepsUpdate d userId today now dateNow (Some v) src = Inr (d', resp) \<and>
    steps_source src = ''manual''"
  let ?ex = "daily_logs d (userId, today)"
  let ?c = "steps_rule ?ex ''manual'' v (step_goal_of d userId) now dateNow"
  note R = steps_rule_manual [of ?ex v "step_goal_of d userId" now dateNow]
  from a have D: "xpAwarded resp = capDailyXp (Some (day_xp d userId today)) (sc_rawXpDelta ?c)"
    "daily_logs d' (userId, today) =
       Some (written_row now ?ex (steps_fields ''manual'' ?c) (xpAwarded resp))"
    using handleStepsUpdate_manual_InrD [of d userId today now dateNow v src d' resp] by blast+
  have b: "sc_bonus ?c \<longleftrightarrow>
             v - stored_manual d userId today \<ge> 500 \<and>
             dateNow - (case stored_last_bonus d userId today of None \<Rightarrow> 0 | Some t \<Rightarrow> t) \<ge> 7200000"
    using R(1) by (simp add: stored_manual_def stored_last_bonus_def)
  have raw: "sc_rawXpDelta ?c =
            (if effectiveSteps ?c \<ge> step_goal_of d userId \<and> steps_goal_flag d userId today = 0
             then (if step_goal_of d userId = 5000 then 20 else 40) else 0) +
            (if sc_bonus ?c then 5 else 0)"
    using R(7) by (simp add: steps_goal_flag_def)
  have lb: "stored_last_bonus d' userId today =
            (if sc_bonus ?c then Some now else stored_last_bonus d userId today)"
    using D(2) R(2) by (simp add: stored_last_bonus_def written_row_steps_fields)
  have sm: "stored_manual d' userId today = v"
    using D(2) R(3) by (simp add: stored_manual_def written_row_steps_fields)
  from b raw D(1) lb sm
  show "let c = steps_rule (daily_logs d (userId, today)) ''manual'' v (step_goal_of d userId) now dateNow
       in (sc_bonus c \<longleftrightarrow>
             v - stored_manual d userId today \<ge> 500 \<and>
             dateNow - (case stored_last_bonus d userId today of None \<Rightarrow> 0 | Some t \<Rightarrow> t) \<ge> 7200000) \<and>
          sc_rawXpDelta c =
            (if effectiveSteps c \<ge> step_goal_of d userId \<and> steps_goal_flag d userId today = 0
             then (if step_goal_of d userId = 5000 then 20 else 40) else 0) +
            (if sc_bonus c then 5 else 0) \<and>
          xpAwarded resp = capDailyXp (Some (day_xp d userId today)) (sc_rawXpDelta c) \<and>
          stored_last_bonus d' userId today =
            (if sc_bonus c then Some now else stored_last_bonus d userId today) \<and>
          stored_manual d' userId today = v"
    unfolding Let_def by (intro conjI)
next
  assume "users d userId = Some user \<and> daily_logs d (userId, today) = None \<and>
    1800 < step_goal_of d userId \<and> steps_source src = ''manual'' \<and>
    7200000 \<le> dn1 \<and> dn2 - now1 < 7200000 \<and> 7200000 \<le> dn3 - now1"
  then show "\<exists>d1 r1 d2 r2 d3 r3.
         handleStepsUpdate d userId today now1 dn1 (Some 600) src = Inr (d1, r1) \<and> xpAwarded r1 = 5 \<and>
         stored_last_bonus d1 userId today = Some now1 \<and>
         handleStepsUpdate d1 userId today now2 dn2 (Some 1200) src = Inr (d2, r2) \<and> xpAwarded r2 = 0 \<and>
         stored_last_bonus d2 userId today = Some now1 \<and>
         handleStepsUpdate d2 userId today now3 dn3 (Some 1800) src = Inr (d3, r3) \<and> xpAwarded r3 = 5 \<and>
         stored_last_bonus d3 userId today = Some now3"
    using steps_sequence [of d userId user today src dn1 dn2 now1 dn3 now2 now3] by blast
qed

theorem manual_step_bonus_witness:
  "users example_streak_db ''u1'' = Some example_user \<and>
   daily_logs example_streak_db (''u1'', 5) = None \<and>
   1800 < step_goal_of example_streak_db ''u1'' \<and> steps_source None = ''manual'' \<and>
   (7200000::int) \<le> 10000000 \<and> (13600000::int) - 10000000 < 7200000 \<and>
   (7200000::int) \<le> 17200000 - 10000000 \<and>
   (\<exists>d1 r1 d2 r2 d3 r3.
      handleStepsUpdate example_streak_db ''u1'' 5 10000000 10000000 (Some 600) None = Inr (d1, r1) \<and>
      xpAwarded r1 = 5 \<and> stored_last_bonus d1 ''u1'' 5 = Some 10000000 \<and>
      stored_manual d1 ''u1'' 5 = 600 \<and>
      handleStepsUpdate d1 ''u1'' 5 13600000 13600000 (Some 1200) None = Inr (d2, r2) \<and>
      xpAwarded r2 = 0 \<and> stored_last_bonus d2 ''u1'' 5 = Some 10000000 \<and>
      handleStepsUpdate d2 ''u1'' 5 17200000 17200000 (Some 1800) None = Inr (d3, r3) \<and>
      xpAwarded r3 = 5 \<and> stored_last_bonus d3 ''u1'' 5 = Some 17200000)"
proof -
  have u: "users example_streak_db ''u1'' = Some example_user"
    and n: "daily_logs example_streak_db (''u1'', 5) = None"
    and g: "1800 < step_goal_of example_streak_db ''u1''"
    and s: "steps_source None = ''manual''"
    by (simp_all add: example_streak_db_def step_goal_of_def steps_source_def truthy_def)
  have t: "(7200000::int) \<le> 10000000" "(13600000::int) - 10000000 < 7200000"
    "(7200000::int) \<le> 17200000 - 10000000"
    by simp_all
  from manual_step_bonus
    [of example_streak_db "''u1''" 5 _ _ _ None _ _ example_user 10000000 13600000 10000000
      17200000 13600000 17200000] u n g s t
  obtain d1 r1 d2 r2 d3 r3 where
    h1: "handleStepsUpdate example_streak_db ''u1'' 5 10000000 10000000 (Some 600) None = Inr (d1, r1)"
    and x1: "xpAwarded r1 = 5" and l1: "stored_last_bonus d1 ''u1'' 5 = Some 10000000"
    and h2: "handleStepsUpdate d1 ''u1'' 5 13600000 13600000 (Some 1200) None = Inr (d2, r2)"
    and x2: "xpAwarded r2 = 0" and l2: "stored_last_bonus d2 ''u1'' 5 = Some 10000000"
    and h3: "handleStepsUpdate d2 ''u1'' 5 17200000 17200000 (Some 1800) None = Inr (d3, r3)"
    and x3: "xpAwarded r3 = 5" and l3: "stored_last_bonus d3 ''u1'' 5 = Some 17200000"
    by blast
  from manual_step_bonus
    [of example_streak_db "''u1''" 5 10000000 10000000 600 None d1 r1] h1 s
  have m1: "stored_manual d1 ''u1'' 5 = 600"
    unfolding Let_def by blast
  from u n g s t h1 x1 l1 m1 h2 x2 l2 h3 x3 l3 show ?thesis by blast
qed


end
